theory Spec2Isabelle
  imports Main "HOL-Library.Word" "HOL-Library.Stream" "HOL-Library.AList" "HOL-Library.Multiset"
begin

unbundle bit_operations_syntax

section \<open>The address manager of addrmgr/addrmanager.go\<close>

text \<open>
  A shallow embedding of the two-tier address table of \<^verbatim>\<open>addrmanager.go\<close>.

  \<^item> A \<^verbatim>\<open>time.Time\<close> is an \<open>int\<close>: nanoseconds since the Unix epoch.
    \<^verbatim>\<open>t.After(u)\<close> is \<open>u < t\<close>, \<^verbatim>\<open>t.Unix()\<close> is \<open>t div 10^9\<close> and
    \<^verbatim>\<open>time.Unix(s, 0)\<close> is \<open>s * 10^9\<close>.
  \<^item> A \<^verbatim>\<open>*wire.NetAddress\<close> is never written through (the code replaces the pointer by a
    fresh copy instead), so it is a value.
  \<^item> A \<^verbatim>\<open>*KnownAddress\<close> is shared between the index, the new buckets and the tried
    lists and is written through, so it is a pointer into an explicit store.
  \<^item> A Go map is an association list with distinct keys; a \<^verbatim>\<open>range\<close> over it visits the
    entries in list order (Go leaves the order open, and the list may be in any order).
  \<^item> The fixed-size arrays \<^verbatim>\<open>[1024]map\<close> and \<^verbatim>\<open>[64]*list.List\<close> are functions of the
    index; a \<^verbatim>\<open>*list.List\<close> is a list and a \<^verbatim>\<open>*list.Element\<close> a position in it.
  \<^item> A run-time panic is the result \<open>None\<close>.
\<close>

type_synonym byte = "8 word"
type_synonym ptr = nat

record NetAddress =
  Timestamp :: int
  Services :: "64 word"
  IP :: "byte list"
  Port :: "16 word"

record KnownAddress =
  na :: NetAddress
  srcAddr :: NetAddress
  attempts :: int
  lastattempt :: int
  lastsuccess :: int
  tried :: bool
  refs :: int

text \<open>
  The collaborators that live outside \<^verbatim>\<open>addrmanager.go\<close> are parameters:
  \<^verbatim>\<open>addrutil.IsRoutable\<close>, \<^verbatim>\<open>addrutil.NetAddressKey\<close>, \<^verbatim>\<open>addrutil.GroupKey\<close>,
  \<^verbatim>\<open>chainhash.DoubleHashB\<close>, \<^verbatim>\<open>KnownAddress.isBad\<close> (at the time of the call), the
  local-address oracle (\<^verbatim>\<open>localAddrs.Reachable\<close>, \<^verbatim>\<open>localAddrs.IsWorking\<close>), the service
  flags \<^verbatim>\<open>protocol.SFTrusted\<close> and \<^verbatim>\<open>protocol.SFNodeNetwork\<close>, the parsers
  \<^verbatim>\<open>net.SplitHostPort\<close>, \<^verbatim>\<open>strconv.ParseUint(s, 10, 16)\<close> and \<^verbatim>\<open>net.ParseIP\<close> (\<open>None\<close>: the
  error, or the nil address), the injected resolver \<^verbatim>\<open>lookupFunc\<close> (\<open>None\<close>: its error) and
  the constructor \<^verbatim>\<open>wire.NewNetAddressIPPort\<close>.
\<close>

record env =
  IsRoutable :: "NetAddress \<Rightarrow> bool"
  NetAddressKey :: "NetAddress \<Rightarrow> string"
  GroupKey :: "NetAddress \<Rightarrow> string"
  DoubleHashB :: "byte list \<Rightarrow> byte list"
  isBad :: "KnownAddress \<Rightarrow> bool"
  Reachable :: "NetAddress \<Rightarrow> bool"
  IsWorking :: bool
  SFTrusted :: "64 word"
  SFNodeNetwork :: "64 word"
  SplitHostPort :: "string \<Rightarrow> (string \<times> string) option"
  ParseUint16 :: "string \<Rightarrow> 16 word option"
  ParseIP :: "string \<Rightarrow> byte list option"
  lookupFunc :: "string \<Rightarrow> byte list list option"
  NewNetAddressIPPort :: "byte list \<Rightarrow> 16 word \<Rightarrow> 64 word \<Rightarrow> NetAddress"

record AddrManager =
  key :: "byte list"
  rand :: "nat stream"
  store :: "ptr \<Rightarrow> KnownAddress"
  nalloc :: ptr
  addrIndex :: "(string \<times> ptr) list"
  addrNew :: "nat \<Rightarrow> (string \<times> ptr) list"
  addrTried :: "nat \<Rightarrow> ptr list"
  nTried :: int
  nNew :: int
  version :: int

definition triedBucketCount :: nat where "triedBucketCount = 64"
definition newBucketSize :: nat where "newBucketSize = 64"
definition newBucketCount :: nat where "newBucketCount = 1024"
definition triedBucketsPerGroup :: nat where "triedBucketsPerGroup = 8"
definition newBucketsPerGroup :: nat where "newBucketsPerGroup = 64"
definition newBucketsPerAddress :: int where "newBucketsPerAddress = 8"
definition getAddrMax :: nat where "getAddrMax = 5000"
definition getAddrMin :: nat where "getAddrMin = 20"
definition getAddrPercent :: nat where "getAddrPercent = 23"
definition serialisationVersion :: int where "serialisationVersion = 2"

subsection \<open>The bucketer\<close>

definition bytes_of :: "string \<Rightarrow> byte list" where
  "bytes_of s = map of_char s"

text \<open>\<^verbatim>\<open>binary.LittleEndian.Uint64\<close> reads the first eight bytes and panics on a shorter slice.\<close>

definition LittleEndian_Uint64 :: "byte list \<Rightarrow> 64 word option" where
  "LittleEndian_Uint64 b =
     (if length b < 8 then None
      else Some (foldr (\<lambda>x acc. ucast x OR push_bit 8 acc) (take 8 b) 0))"

definition LittleEndian_PutUint64 :: "64 word \<Rightarrow> byte list" where
  "LittleEndian_PutUint64 v = map (\<lambda>i. ucast (drop_bit (8 * i) v)) [0..<8]"

definition getNewBucket :: "env \<Rightarrow> AddrManager \<Rightarrow> NetAddress \<Rightarrow> NetAddress \<Rightarrow> nat option" where
  "getNewBucket e a netAddr src =
     (let data1 = key a @ bytes_of (GroupKey e netAddr) @ bytes_of (GroupKey e src);
          hash1 = DoubleHashB e data1
      in case LittleEndian_Uint64 hash1 of
           None \<Rightarrow> None
         | Some h \<Rightarrow>
             (let hash64 = h mod of_nat newBucketsPerGroup;
                  hashbuf = LittleEndian_PutUint64 hash64;
                  data2 = key a @ bytes_of (GroupKey e src) @ hashbuf;
                  hash2 = DoubleHashB e data2
              in case LittleEndian_Uint64 hash2 of
                   None \<Rightarrow> None
                 | Some h2 \<Rightarrow> Some (unat (h2 mod of_nat newBucketCount))))"

definition getTriedBucket :: "env \<Rightarrow> AddrManager \<Rightarrow> NetAddress \<Rightarrow> nat option" where
  "getTriedBucket e a netAddr =
     (let data1 = key a @ bytes_of (NetAddressKey e netAddr);
          hash1 = DoubleHashB e data1
      in case LittleEndian_Uint64 hash1 of
           None \<Rightarrow> None
         | Some h \<Rightarrow>
             (let hash64 = h mod of_nat triedBucketsPerGroup;
                  hashbuf = LittleEndian_PutUint64 hash64;
                  data2 = key a @ bytes_of (GroupKey e netAddr) @ hashbuf;
                  hash2 = DoubleHashB e data2
              in case LittleEndian_Uint64 hash2 of
                   None \<Rightarrow> None
                 | Some h2 \<Rightarrow> Some (unat (h2 mod of_nat triedBucketCount))))"

text \<open>The hash the bucketer consumes has at least the eight bytes it reads (a SHA-256 digest has 32).\<close>

definition hash_ok :: "env \<Rightarrow> bool" where
  "hash_ok e = (\<forall>d. 8 \<le> length (DoubleHashB e d))"

subsection \<open>Construction and reset\<close>

definition zeroTime :: int where
  "zeroTime = - 62135596800 * 1000000000"

definition zeroKnownAddress :: KnownAddress where
  "zeroKnownAddress =
     \<lparr>na = \<lparr>Timestamp = zeroTime, Services = 0, IP = [], Port = 0\<rparr>,
      srcAddr = \<lparr>Timestamp = zeroTime, Services = 0, IP = [], Port = 0\<rparr>,
      attempts = 0, lastattempt = zeroTime, lastsuccess = zeroTime, tried = False, refs = 0\<rparr>"

text \<open>
  \<^verbatim>\<open>reset\<close> replaces the index and every bucket and draws a new key from the operating
  system (\<open>entropy\<close>: the 32 bytes read, \<open>None\<close> when the read fails and the code panics).
  It leaves \<^verbatim>\<open>nNew\<close> and \<^verbatim>\<open>nTried\<close> alone.
\<close>

definition reset :: "byte list option \<Rightarrow> AddrManager \<Rightarrow> AddrManager option" where
  "reset entropy a =
     (case entropy of
        None \<Rightarrow> None
      | Some k \<Rightarrow> Some (a\<lparr>addrIndex := [], key := k, addrNew := (\<lambda>i. []), addrTried := (\<lambda>i. [])\<rparr>))"

text \<open>\<^verbatim>\<open>New\<close>: the Go zero value of every field but \<^verbatim>\<open>rand\<close> and \<^verbatim>\<open>version\<close>, then \<^verbatim>\<open>reset\<close>.\<close>

definition New :: "nat stream \<Rightarrow> byte list option \<Rightarrow> AddrManager option" where
  "New seed entropy =
     reset entropy
       \<lparr>key = replicate 32 0, rand = seed, store = (\<lambda>p. zeroKnownAddress), nalloc = 0,
        addrIndex = [], addrNew = (\<lambda>i. []), addrTried = (\<lambda>i. []),
        nTried = 0, nNew = 0, version = serialisationVersion\<rparr>"

subsection \<open>Adding and expiring addresses\<close>

definition find_ka :: "env \<Rightarrow> AddrManager \<Rightarrow> NetAddress \<Rightarrow> ptr option" where
  "find_ka e a addr = map_of (addrIndex a) (NetAddressKey e addr)"

text \<open>
  A draw from \<^verbatim>\<open>a.rand\<close> with bound \<open>n > 0\<close> (\<^verbatim>\<open>Intn\<close>, \<^verbatim>\<open>Int31n\<close>, \<^verbatim>\<open>Int63n\<close>): the stream
  holds the generator's future outputs, reduced into the range.
\<close>

definition draw :: "nat \<Rightarrow> AddrManager \<Rightarrow> nat \<times> AddrManager" where
  "draw n a = (shd (rand a) mod n, a\<lparr>rand := stl (rand a)\<rparr>)"

text \<open>
  The shared tail of \<^verbatim>\<open>expireNew\<close>'s two removals: delete \<open>k\<close> from the bucket, decrement
  the record's \<^verbatim>\<open>refs\<close>, and drop the record from the index when none is left.
\<close>

definition dropRef :: "nat \<Rightarrow> string \<Rightarrow> ptr \<Rightarrow> AddrManager \<Rightarrow> AddrManager" where
  "dropRef bucket k v a =
     (let a1 = a\<lparr>addrNew := (addrNew a)(bucket := AList.delete k (addrNew a bucket)),
                 store := (store a)(v := (store a v)\<lparr>refs := refs (store a v) - 1\<rparr>)\<rparr>
      in if refs (store a1 v) = 0
         then a1\<lparr>nNew := nNew a1 - 1, addrIndex := AList.delete k (addrIndex a1)\<rparr>
         else a1)"

text \<open>The \<^verbatim>\<open>range\<close> loop of \<^verbatim>\<open>expireNew\<close> over the entries of the bucket, with \<^verbatim>\<open>oldest\<close>.\<close>

fun expireNew_loop ::
  "env \<Rightarrow> nat \<Rightarrow> (string \<times> ptr) list \<Rightarrow> ptr option \<Rightarrow> AddrManager \<Rightarrow> ptr option \<times> AddrManager" where
  "expireNew_loop e bucket [] oldest a = (oldest, a)"
| "expireNew_loop e bucket ((k, v) # rest) oldest a =
     (if isBad e (store a v) then expireNew_loop e bucket rest oldest (dropRef bucket k v a)
      else case oldest of
             None \<Rightarrow> expireNew_loop e bucket rest (Some v) a
           | Some old \<Rightarrow>
               if \<not> Timestamp (na (store a old)) < Timestamp (na (store a v))
               then expireNew_loop e bucket rest (Some v) a
               else expireNew_loop e bucket rest oldest a)"

definition expireNew :: "env \<Rightarrow> nat \<Rightarrow> AddrManager \<Rightarrow> AddrManager" where
  "expireNew e bucket a =
     (case expireNew_loop e bucket (addrNew a bucket) None a of
        (None, a1) \<Rightarrow> a1
      | (Some old, a1) \<Rightarrow> dropRef bucket (NetAddressKey e (na (store a1 old))) old a1)"

text \<open>Lines 203 to 221 of \<^verbatim>\<open>updateAddress\<close>, which both of its branches reach.\<close>

definition addToNewBucket ::
  "env \<Rightarrow> NetAddress \<Rightarrow> NetAddress \<Rightarrow> string \<Rightarrow> ptr \<Rightarrow> AddrManager \<Rightarrow> AddrManager option" where
  "addToNewBucket e netAddr src addr p a =
     (case getNewBucket e a netAddr src of
        None \<Rightarrow> None
      | Some bucket \<Rightarrow>
          if map_of (addrNew a bucket) addr \<noteq> None then Some a
          else
            (let a1 = (if newBucketSize < length (addrNew a bucket) then expireNew e bucket a else a)
             in Some (a1\<lparr>store := (store a1)(p := (store a1 p)\<lparr>refs := refs (store a1 p) + 1\<rparr>),
                          addrNew := (addrNew a1)(bucket := AList.update addr p (addrNew a1 bucket))\<rparr>)))"

definition updateAddress :: "env \<Rightarrow> NetAddress \<Rightarrow> NetAddress \<Rightarrow> AddrManager \<Rightarrow> AddrManager option" where
  "updateAddress e netAddr src a =
     (if \<not> IsRoutable e netAddr then Some a
      else
        (let addr = NetAddressKey e netAddr in
         case find_ka e a netAddr of
           Some p \<Rightarrow>
             (let ka = store a p;
                  a1 = (if Timestamp (na ka) < Timestamp netAddr
                           \<or> (Services (na ka) AND Services netAddr) \<noteq> Services netAddr
                        then a\<lparr>store := (store a)(p := ka\<lparr>na := (na ka)
                                 \<lparr>Timestamp := Timestamp netAddr,
                                  Services := Services (na ka) OR Services netAddr\<rparr>\<rparr>)\<rparr>
                        else a);
                  ka1 = store a1 p
              in if tried ka1 then Some a1
                 else if refs ka1 = newBucketsPerAddress then Some a1
                 else
                   (let factor = sint (word_of_int (2 * refs ka1) :: 32 word)
                    in if factor \<le> 0 then None
                       else (case draw (nat factor) a1 of
                               (r, a2) \<Rightarrow>
                                 if r \<noteq> 0 then Some a2
                                 else addToNewBucket e netAddr src addr p a2)))
         | None \<Rightarrow>
             (let p = nalloc a;
                  ka = \<lparr>na = netAddr, srcAddr = src, attempts = 0, lastattempt = zeroTime,
                        lastsuccess = zeroTime, tried = False, refs = 0\<rparr>;
                  a1 = a\<lparr>store := (store a)(p := ka), nalloc := Suc p,
                          addrIndex := AList.update addr p (addrIndex a), nNew := nNew a + 1\<rparr>
              in addToNewBucket e netAddr src addr p a1)))"

definition AddAddress :: "env \<Rightarrow> NetAddress \<Rightarrow> NetAddress \<Rightarrow> AddrManager \<Rightarrow> AddrManager option" where
  "AddAddress e addr src a = updateAddress e addr src a"

fun AddAddresses :: "env \<Rightarrow> NetAddress list \<Rightarrow> NetAddress \<Rightarrow> AddrManager \<Rightarrow> AddrManager option" where
  "AddAddresses e [] src a = Some a"
| "AddAddresses e (n # ns) src a =
     (case updateAddress e n src a of
        None \<Rightarrow> None
      | Some a' \<Rightarrow> AddAddresses e ns src a')"

subsection \<open>Promotion to the tried tier\<close>



text \<open>The loop of \<^verbatim>\<open>Good\<close> over all new buckets; \<^verbatim>\<open>oldBucket == -1\<close> is \<open>None\<close>.\<close>

fun removeFromNew ::
  "string \<Rightarrow> ptr \<Rightarrow> nat list \<Rightarrow> nat option \<Rightarrow> AddrManager \<Rightarrow> nat option \<times> AddrManager" where
  "removeFromNew addrKey p [] oldBucket a = (oldBucket, a)"
| "removeFromNew addrKey p (i # rest) oldBucket a =
     (if map_of (addrNew a i) addrKey \<noteq> None
      then removeFromNew addrKey p rest (if oldBucket = None then Some i else oldBucket)
             (a\<lparr>addrNew := (addrNew a)(i := AList.delete addrKey (addrNew a i)),
                store := (store a)(p := (store a p)\<lparr>refs := refs (store a p) - 1\<rparr>)\<rparr>)
      else removeFromNew addrKey p rest oldBucket a)"


subsection \<open>Connected and SetServices\<close>

text \<open>
  \<^verbatim>\<open>Connected\<close> reads the clock twice: \<open>now\<close> for the test and \<open>now'\<close> for the copy's
  \<^verbatim>\<open>Timestamp\<close>. Twenty minutes are \<open>1200 * 10^9\<close> nanoseconds.
\<close>

definition Connected :: "env \<Rightarrow> int \<Rightarrow> int \<Rightarrow> NetAddress \<Rightarrow> AddrManager \<Rightarrow> AddrManager" where
  "Connected e now now' addr a =
     (case find_ka e a addr of
        None \<Rightarrow> a
      | Some p \<Rightarrow>
          (let ka = store a p
           in if Timestamp (na ka) + 1200 * 1000000000 < now
              then a\<lparr>store := (store a)(p := ka\<lparr>na := (na ka)\<lparr>Timestamp := now'\<rparr>\<rparr>)\<rparr>
              else a))"

definition SetServices :: "env \<Rightarrow> NetAddress \<Rightarrow> 64 word \<Rightarrow> AddrManager \<Rightarrow> AddrManager" where
  "SetServices e addr services a =
     (case find_ka e a addr of
        None \<Rightarrow> a
      | Some p \<Rightarrow>
          (let ka = store a p
           in if Services (na ka) \<noteq> services
              then a\<lparr>store := (store a)(p := ka\<lparr>na := (na ka)\<lparr>Services := services\<rparr>\<rparr>)\<rparr>
              else a))"

subsection \<open>Sharing addresses\<close>

definition numAddresses :: "AddrManager \<Rightarrow> int" where
  "numAddresses a = nTried a + nNew a"

definition addressesThatOnceWorked :: "AddrManager \<Rightarrow> NetAddress list" where
  "addressesThatOnceWorked a =
     (let count = length (filter (\<lambda>(k, v). 0 < lastsuccess (store a v)) (addrIndex a))
      in if count = 0 then []
         else map (\<lambda>(k, v). na (store a v))
                (filter (\<lambda>(k, v). 0 < lastsuccess (store a v)) (addrIndex a)))"

text \<open>
  The Fisher-Yates loop of \<^verbatim>\<open>AddressesToShare\<close>, from index \<open>i\<close>. It draws from the
  process-wide generator \<open>g\<close>; \<^verbatim>\<open>rand.Intn\<close> panics on a bound that is not positive.
\<close>

function shuffle_loop ::
  "nat \<Rightarrow> nat \<Rightarrow> NetAddress list \<Rightarrow> nat stream \<Rightarrow> (NetAddress list \<times> nat stream) option" where
  "shuffle_loop numAddr i allAddr g =
     (if i < numAddr
      then if length allAddr \<le> i then None
           else (let j = shd g mod (length allAddr - i) + i
                 in shuffle_loop numAddr (Suc i)
                      (allAddr[i := allAddr ! j, j := allAddr ! i]) (stl g))
      else Some (allAddr, g))"
  by pat_completeness auto
termination
  by (relation "measure (\<lambda>(n, i, xs, g). n - i)") auto

declare shuffle_loop.simps [simp del]

definition AddressesToShare :: "AddrManager \<Rightarrow> nat stream \<Rightarrow> (NetAddress list \<times> nat stream) option" where
  "AddressesToShare a g =
     (let allAddr = addressesThatOnceWorked a;
          numAddr0 = length allAddr * getAddrPercent div 100;
          numAddr = (if getAddrMax < numAddr0 then getAddrMax
                          else if numAddr0 < getAddrMin then length allAddr
                          else numAddr0)
      in case shuffle_loop numAddr 0 allAddr g of
           None \<Rightarrow> None
         | Some (shuffled, g') \<Rightarrow> Some (take numAddr shuffled, g'))"

subsection \<open>Selecting an address\<close>

text \<open>
  \<^verbatim>\<open>isGoodAddress\<close>. The callback \<open>isOk\<close> is a predicate on the record, and the clock
  \<open>now\<close> stands still during one call of \<^verbatim>\<open>GetAddress\<close>. Sixty seconds are \<open>60 * 10^9\<close>
  nanoseconds.
\<close>

definition isGoodAddress ::
  "env \<Rightarrow> int \<Rightarrow> KnownAddress \<Rightarrow> bool \<Rightarrow> (KnownAddress \<Rightarrow> bool) \<Rightarrow> bool" where
  "isGoodAddress e now ka relaxedMode isOk =
     (if \<not> Reachable e (na ka) \<and> IsWorking e then False
      else if now < lastattempt ka + 60 * 1000000000 then False
      else if \<not> (relaxedMode
                 \<or> (Services (srcAddr ka) AND SFTrusted e) = SFTrusted e
                 \<or> 0 < lastsuccess ka) then False
      else if \<not> isOk ka then False
      else if now < lastattempt ka + 60 * 1000000000 then False
      else True)"

function triedSweep ::
  "env \<Rightarrow> int \<Rightarrow> bool \<Rightarrow> (KnownAddress \<Rightarrow> bool) \<Rightarrow> nat \<Rightarrow> nat \<Rightarrow> AddrManager
     \<Rightarrow> ptr option \<times> AddrManager" where
  "triedSweep e now relaxedMode isOk startBucket bucketMod a =
     (if bucketMod < startBucket * 2
      then (let bucket = bucketMod mod triedBucketCount
            in if length (addrTried a bucket) = 0
               then triedSweep e now relaxedMode isOk startBucket (Suc bucketMod) a
               else
                 (case draw (length (addrTried a bucket)) a of
                    (startingPoint, a1) \<Rightarrow>
                      (case List.find (\<lambda>va. isGoodAddress e now (store a1 va) relaxedMode isOk)
                              (drop startingPoint (addrTried a1 bucket)) of
                         Some va \<Rightarrow> (Some va, a1)
                       | None \<Rightarrow>
                           (case List.find (\<lambda>va. isGoodAddress e now (store a1 va) relaxedMode isOk)
                                   (take startingPoint (addrTried a1 bucket)) of
                              Some va \<Rightarrow> (Some va, a1)
                            | None \<Rightarrow>
                                triedSweep e now relaxedMode isOk startBucket (Suc bucketMod) a1))))
      else (None, a))"
  by pat_completeness auto
termination
  by (relation "measure (\<lambda>(e, now, r, ok, sb, bm, a). sb * 2 - bm)") auto

declare triedSweep.simps [simp del]

definition getTriedAddress ::
  "env \<Rightarrow> int \<Rightarrow> bool \<Rightarrow> (KnownAddress \<Rightarrow> bool) \<Rightarrow> AddrManager \<Rightarrow> ptr option \<times> AddrManager" where
  "getTriedAddress e now relaxedMode isOk a =
     (case draw triedBucketCount a of
        (startBucket, a1) \<Rightarrow> triedSweep e now relaxedMode isOk startBucket startBucket a1)"

function untriedSweep ::
  "env \<Rightarrow> int \<Rightarrow> bool \<Rightarrow> (KnownAddress \<Rightarrow> bool) \<Rightarrow> nat \<Rightarrow> nat \<Rightarrow> AddrManager
     \<Rightarrow> ptr option \<times> AddrManager" where
  "untriedSweep e now relaxedMode isOk startBucket bucketMod a =
     (if bucketMod < startBucket * 2
      then (let bucket = bucketMod mod newBucketCount
            in if length (addrNew a bucket) = 0
               then untriedSweep e now relaxedMode isOk startBucket (Suc bucketMod) a
               else
                 (case draw (length (addrNew a bucket)) a of
                    (startingPoint, a1) \<Rightarrow>
                      (case List.find (\<lambda>va. isGoodAddress e now (store a1 va) relaxedMode isOk)
                              (drop startingPoint (map snd (addrNew a1 bucket))) of
                         Some va \<Rightarrow> (Some va, a1)
                       | None \<Rightarrow>
                           (case List.find (\<lambda>va. isGoodAddress e now (store a1 va) relaxedMode isOk)
                                   (take startingPoint (map snd (addrNew a1 bucket))) of
                              Some va \<Rightarrow> (Some va, a1)
                            | None \<Rightarrow>
                                untriedSweep e now relaxedMode isOk startBucket (Suc bucketMod) a1))))
      else (None, a))"
  by pat_completeness auto
termination
  by (relation "measure (\<lambda>(e, now, r, ok, sb, bm, a). sb * 2 - bm)") auto

declare untriedSweep.simps [simp del]

definition getUntriedAddress ::
  "env \<Rightarrow> int \<Rightarrow> bool \<Rightarrow> (KnownAddress \<Rightarrow> bool) \<Rightarrow> AddrManager \<Rightarrow> ptr option \<times> AddrManager" where
  "getUntriedAddress e now relaxedMode isOk a =
     (case draw newBucketCount a of
        (startBucket, a1) \<Rightarrow> untriedSweep e now relaxedMode isOk startBucket startBucket a1)"

text \<open>
  The coin of \<^verbatim>\<open>getAddress\<close> is drawn only when \<^verbatim>\<open>nTried > 0\<close> and \<^verbatim>\<open>nNew != 0\<close>
  (the short-circuit of \<^verbatim>\<open>&&\<close> and \<^verbatim>\<open>||\<close>).
\<close>

definition triedFirst :: "AddrManager \<Rightarrow> bool \<times> AddrManager" where
  "triedFirst a =
     (if 0 < nTried a
      then if nNew a = 0 then (True, a)
           else (case draw 2 a of (c, a1) \<Rightarrow> (c = 0, a1))
      else (False, a))"

function getAddress ::
  "env \<Rightarrow> int \<Rightarrow> bool \<Rightarrow> (KnownAddress \<Rightarrow> bool) \<Rightarrow> AddrManager \<Rightarrow> ptr option \<times> AddrManager" where
  "getAddress e now relaxedMode isOk a =
     (case
        (case triedFirst a of
           (True, a1) \<Rightarrow>
             (case getTriedAddress e now relaxedMode isOk a1 of
                (Some addr, a2) \<Rightarrow> (Some addr, a2)
              | (None, a2) \<Rightarrow> getUntriedAddress e now relaxedMode isOk a2)
         | (False, a1) \<Rightarrow>
             (case getUntriedAddress e now relaxedMode isOk a1 of
                (Some addr, a2) \<Rightarrow> (Some addr, a2)
              | (None, a2) \<Rightarrow> getTriedAddress e now relaxedMode isOk a2)) of
        (Some addr, a3) \<Rightarrow> (Some addr, a3)
      | (None, a3) \<Rightarrow>
          if \<not> relaxedMode then getAddress e now True isOk a3 else (None, a3))"
  by pat_completeness auto
termination
  by (relation "measure (\<lambda>(e, now, r, ok, a). if r then 0 else 1)") auto

declare getAddress.simps [simp del]

definition GetAddress ::
  "env \<Rightarrow> int \<Rightarrow> (KnownAddress \<Rightarrow> bool) \<Rightarrow> AddrManager \<Rightarrow> ptr option \<times> AddrManager" where
  "GetAddress e now isOk a =
     (if numAddresses a = 0 then (None, a)
      else case getAddress e now False isOk a of
             (Some addr, a1) \<Rightarrow>
               (Some addr,
                a1\<lparr>store := (store a1)(addr := (store a1 addr)
                      \<lparr>attempts := attempts (store a1 addr) + 1, lastattempt := now\<rparr>)\<rparr>)
           | (None, a1) \<Rightarrow> (None, a1))"

subsection \<open>Persistence\<close>

text \<open>
  The snapshot as \<^verbatim>\<open>savePeers\<close> builds it and the JSON decoder returns it. The Go field
  \<^verbatim>\<open>Services\<close> of \<^verbatim>\<open>serializedKnownAddress\<close> is \<open>Services'\<close> here (the name is taken by
  \<^verbatim>\<open>NetAddress\<close>). The peers file is absent, unreadable, not a snapshot, or a snapshot.
\<close>

record serializedKnownAddress =
  Addr :: string
  Src :: string
  Attempts :: int
  TimeStamp :: int
  LastAttempt :: int
  LastSuccess :: int
  Services' :: "64 word"
  SrcServices :: "64 word"

record serializedAddrManager =
  Version :: int
  Key :: "byte list"
  Addresses :: "serializedKnownAddress list"
  NewBuckets :: "nat \<Rightarrow> string list"
  TriedBuckets :: "nat \<Rightarrow> string list"

datatype peersFile = Missing | Unreadable | Malformed | Snapshot serializedAddrManager

datatype error =
    ErrOpen
  | ErrRead
  | ErrVersion int
  | ErrNetAddress string
  | ErrNewBucket string
  | ErrTriedBucket string
  | ErrNoRefs string
  | ErrNewAndTried string

definition Unix :: "int \<Rightarrow> int" where
  "Unix t = t div 1000000000"

definition time_Unix :: "int \<Rightarrow> int" where
  "time_Unix s = s * 1000000000"

definition serializeKnownAddress :: "env \<Rightarrow> AddrManager \<Rightarrow> string \<times> ptr \<Rightarrow> serializedKnownAddress" where
  "serializeKnownAddress e a kv =
     (case kv of
        (k, v) \<Rightarrow>
          \<lparr>Addr = k,
           Src = NetAddressKey e (srcAddr (store a v)),
           Attempts = attempts (store a v),
           TimeStamp = Unix (Timestamp (na (store a v))),
           LastAttempt = Unix (lastattempt (store a v)),
           LastSuccess = Unix (lastsuccess (store a v)),
           Services' = (if 1 < version a then Services (na (store a v)) else 0),
           SrcServices = (if 1 < version a then Services (srcAddr (store a v)) else 0)\<rparr>)"

text \<open>The structure \<^verbatim>\<open>sam\<close> that \<^verbatim>\<open>savePeers\<close> fills before it opens the file.\<close>

definition snapshot :: "env \<Rightarrow> AddrManager \<Rightarrow> serializedAddrManager" where
  "snapshot e a =
     \<lparr>Version = version a,
      Key = key a,
      Addresses = map (serializeKnownAddress e a) (addrIndex a),
      NewBuckets = (\<lambda>i. map fst (addrNew a i)),
      TriedBuckets = (\<lambda>i. map (\<lambda>ka. NetAddressKey e (na (store a ka))) (addrTried a i))\<rparr>"

text \<open>
  \<^verbatim>\<open>savePeers\<close>: \<open>create_ok\<close> and \<open>encode_ok\<close> say whether \<^verbatim>\<open>os.Create\<close> and the encoder
  succeed. A failed create leaves the file as it was; a failed encode leaves a file that
  is not a snapshot.
\<close>

definition savePeers :: "env \<Rightarrow> bool \<Rightarrow> bool \<Rightarrow> AddrManager \<Rightarrow> peersFile \<Rightarrow> peersFile" where
  "savePeers e create_ok encode_ok a file =
     (if \<not> create_ok then file
      else if \<not> encode_ok then Malformed
      else Snapshot (snapshot e a))"

definition HostToNetAddress :: "env \<Rightarrow> string \<Rightarrow> 16 word \<Rightarrow> 64 word \<Rightarrow> NetAddress option" where
  "HostToNetAddress e host port services =
     (case ParseIP e host of
        Some ip \<Rightarrow> Some (NewNetAddressIPPort e ip port services)
      | None \<Rightarrow>
          (case lookupFunc e host of
             None \<Rightarrow> None
           | Some ips \<Rightarrow>
               (case ips of
                  [] \<Rightarrow> None
                | ip # _ \<Rightarrow> Some (NewNetAddressIPPort e ip port services))))"

definition DeserializeNetAddress :: "env \<Rightarrow> string \<Rightarrow> 64 word \<Rightarrow> NetAddress option" where
  "DeserializeNetAddress e addr services =
     (case SplitHostPort e addr of
        None \<Rightarrow> None
      | Some (host, portStr) \<Rightarrow>
          (case ParseUint16 e portStr of
             None \<Rightarrow> None
           | Some port \<Rightarrow> HostToNetAddress e host port services))"

text \<open>The three loops of \<^verbatim>\<open>deserializePeers\<close> and its sanity check.\<close>

fun loadAddresses ::
  "env \<Rightarrow> int \<Rightarrow> serializedKnownAddress list \<Rightarrow> AddrManager \<Rightarrow> error option \<times> AddrManager" where
  "loadAddresses e ver [] a = (None, a)"
| "loadAddresses e ver (v # vs) a =
     (case DeserializeNetAddress e (Addr v) (if ver = 1 then SFNodeNetwork e else Services' v) of
        None \<Rightarrow> (Some (ErrNetAddress (Addr v)), a)
      | Some n \<Rightarrow>
          (case DeserializeNetAddress e (Src v)
                  (if ver = 1 then SFNodeNetwork e else SrcServices v) of
             None \<Rightarrow> (Some (ErrNetAddress (Src v)), a)
           | Some s \<Rightarrow>
               (let p = nalloc a;
                    ka = \<lparr>na = n, srcAddr = s, attempts = Attempts v,
                          lastattempt = time_Unix (LastAttempt v),
                          lastsuccess = time_Unix (LastSuccess v),
                          tried = False, refs = 0\<rparr>
                in loadAddresses e ver vs
                     (a\<lparr>store := (store a)(p := ka), nalloc := Suc p,
                        addrIndex := AList.update (NetAddressKey e n) p (addrIndex a)\<rparr>))))"

fun loadNewBucket :: "nat \<Rightarrow> string list \<Rightarrow> AddrManager \<Rightarrow> error option \<times> AddrManager" where
  "loadNewBucket i [] a = (None, a)"
| "loadNewBucket i (val # vals) a =
     (case map_of (addrIndex a) val of
        None \<Rightarrow> (Some (ErrNewBucket val), a)
      | Some ka \<Rightarrow>
          (let a1 = (if refs (store a ka) = 0 then a\<lparr>nNew := nNew a + 1\<rparr> else a)
           in loadNewBucket i vals
                (a1\<lparr>store := (store a1)(ka := (store a1 ka)\<lparr>refs := refs (store a1 ka) + 1\<rparr>),
                    addrNew := (addrNew a1)(i := AList.update val ka (addrNew a1 i))\<rparr>)))"

fun loadNewBuckets ::
  "(nat \<Rightarrow> string list) \<Rightarrow> nat list \<Rightarrow> AddrManager \<Rightarrow> error option \<times> AddrManager" where
  "loadNewBuckets nb [] a = (None, a)"
| "loadNewBuckets nb (i # rest) a =
     (case loadNewBucket i (nb i) a of
        (Some err, a1) \<Rightarrow> (Some err, a1)
      | (None, a1) \<Rightarrow> loadNewBuckets nb rest a1)"

fun loadTriedBucket :: "nat \<Rightarrow> string list \<Rightarrow> AddrManager \<Rightarrow> error option \<times> AddrManager" where
  "loadTriedBucket i [] a = (None, a)"
| "loadTriedBucket i (val # vals) a =
     (case map_of (addrIndex a) val of
        None \<Rightarrow> (Some (ErrTriedBucket val), a)
      | Some ka \<Rightarrow>
          loadTriedBucket i vals
            (a\<lparr>store := (store a)(ka := (store a ka)\<lparr>tried := True\<rparr>),
               nTried := nTried a + 1,
               addrTried := (addrTried a)(i := addrTried a i @ [ka])\<rparr>))"

fun loadTriedBuckets ::
  "(nat \<Rightarrow> string list) \<Rightarrow> nat list \<Rightarrow> AddrManager \<Rightarrow> error option \<times> AddrManager" where
  "loadTriedBuckets tb [] a = (None, a)"
| "loadTriedBuckets tb (i # rest) a =
     (case loadTriedBucket i (tb i) a of
        (Some err, a1) \<Rightarrow> (Some err, a1)
      | (None, a1) \<Rightarrow> loadTriedBuckets tb rest a1)"

fun sanityCheck :: "(ptr \<Rightarrow> KnownAddress) \<Rightarrow> (string \<times> ptr) list \<Rightarrow> error option" where
  "sanityCheck st [] = None"
| "sanityCheck st ((k, v) # rest) =
     (if refs (st v) = 0 \<and> \<not> tried (st v) then Some (ErrNoRefs k)
      else if 0 < refs (st v) \<and> tried (st v) then Some (ErrNewAndTried k)
      else sanityCheck st rest)"

definition deserializePeers :: "env \<Rightarrow> peersFile \<Rightarrow> AddrManager \<Rightarrow> error option \<times> AddrManager" where
  "deserializePeers e file a =
     (case file of
        Missing \<Rightarrow> (None, a)
      | Unreadable \<Rightarrow> (Some ErrOpen, a)
      | Malformed \<Rightarrow> (Some ErrRead, a)
      | Snapshot sam \<Rightarrow>
          if serialisationVersion < Version sam then (Some (ErrVersion (Version sam)), a)
          else
            (case loadAddresses e (Version sam) (Addresses sam) (a\<lparr>key := Key sam\<rparr>) of
               (Some err, a1) \<Rightarrow> (Some err, a1)
             | (None, a1) \<Rightarrow>
                 (case loadNewBuckets (NewBuckets sam) [0..<newBucketCount] a1 of
                    (Some err, a2) \<Rightarrow> (Some err, a2)
                  | (None, a2) \<Rightarrow>
                      (case loadTriedBuckets (TriedBuckets sam) [0..<triedBucketCount] a2 of
                         (Some err, a3) \<Rightarrow> (Some err, a3)
                       | (None, a3) \<Rightarrow> (sanityCheck (store a3) (addrIndex a3), a3)))))"

text \<open>
  \<^verbatim>\<open>loadPeers\<close>: on an error the file is removed (\<open>remove_ok\<close>: whether \<^verbatim>\<open>os.Remove\<close>
  succeeds; its failure is only logged) and the manager is \<^verbatim>\<open>reset\<close>.
\<close>

definition loadPeers ::
  "env \<Rightarrow> bool \<Rightarrow> byte list option \<Rightarrow> peersFile \<Rightarrow> AddrManager
     \<Rightarrow> error option \<times> AddrManager option \<times> peersFile" where
  "loadPeers e remove_ok entropy file a =
     (case deserializePeers e file a of
        (Some err, a1) \<Rightarrow>
          (Some err, reset entropy a1, (if remove_ok then Missing else file))
      | (None, a1) \<Rightarrow> (None, Some a1, file))"

section \<open>Concrete instances\<close>

text \<open>
  An instance of the collaborators for the closed examples: keys are the four address
  bytes and the two port bytes, the group is the first two address bytes, every
  four-byte address outside 127.0.0.0/8 is routable, and the hash is any function \<open>H\<close>
  cut or padded to 32 bytes. \<open>demoE\<close> takes the constant hash and calls a record bad after
  five attempts. \<open>demo0\<close> is the manager \<^verbatim>\<open>New\<close> returns, \<open>demo1\<close> the manager after one
  \<^verbatim>\<open>AddAddress\<close>.
\<close>

definition demoKey :: "NetAddress \<Rightarrow> string" where
  "demoKey n = map (\<lambda>b. char_of (unat b)) (IP n)
               @ [char_of (unat (Port n) div 256), char_of (unat (Port n) mod 256)]"

definition demoGroup :: "NetAddress \<Rightarrow> string" where
  "demoGroup n = map (\<lambda>b. char_of (unat b)) (take 2 (IP n))"

definition demoSplit :: "string \<Rightarrow> (string \<times> string) option" where
  "demoSplit s = (if length s = 6 then Some (take 4 s, drop 4 s) else None)"

definition demoPort :: "string \<Rightarrow> 16 word option" where
  "demoPort s = (case s of [hi, lo] \<Rightarrow> Some (of_nat (of_char hi * 256 + of_char lo)) | _ \<Rightarrow> None)"

definition demoIP :: "string \<Rightarrow> byte list option" where
  "demoIP s = (if length s = 4 then Some (map (\<lambda>c. of_nat (of_char c)) s) else None)"

definition demoLoadTime :: int where
  "demoLoadTime = 1700000000 * 1000000000"

definition demo_env :: "(byte list \<Rightarrow> byte list) \<Rightarrow> (KnownAddress \<Rightarrow> bool) \<Rightarrow> env" where
  "demo_env H bad =
     \<lparr>IsRoutable = (\<lambda>n. length (IP n) = 4 \<and> take 1 (IP n) \<noteq> [127]),
      NetAddressKey = demoKey, GroupKey = demoGroup,
      DoubleHashB = (\<lambda>d. take 32 (H d @ replicate 32 0)), isBad = bad,
      Reachable = (\<lambda>n. True), IsWorking = True, SFTrusted = 64, SFNodeNetwork = 1,
      SplitHostPort = demoSplit, ParseUint16 = demoPort, ParseIP = demoIP,
      lookupFunc = (\<lambda>h. None),
      NewNetAddressIPPort = (\<lambda>ip port sv.
        \<lparr>Timestamp = demoLoadTime, Services = sv, IP = ip, Port = port\<rparr>)\<rparr>"

definition demoE :: env where
  "demoE = demo_env (\<lambda>d. []) (\<lambda>ka. 5 \<le> attempts ka)"

definition addr4 :: "byte \<Rightarrow> byte \<Rightarrow> byte \<Rightarrow> byte \<Rightarrow> int \<Rightarrow> 64 word \<Rightarrow> NetAddress" where
  "addr4 b0 b1 b2 b3 ts sv = \<lparr>Timestamp = ts, Services = sv, IP = [b0, b1, b2, b3], Port = 8333\<rparr>"

definition demo0 :: AddrManager where
  "demo0 = \<lparr>key = replicate 32 7, rand = sconst 0, store = (\<lambda>p. zeroKnownAddress), nalloc = 0,
        addrIndex = [], addrNew = (\<lambda>i. []), addrTried = (\<lambda>i. []),
        nTried = 0, nNew = 0, version = 2\<rparr>"

definition demoKA :: "NetAddress \<Rightarrow> NetAddress \<Rightarrow> KnownAddress" where
  "demoKA n s = \<lparr>na = n, srcAddr = s, attempts = 0, lastattempt = zeroTime,
                 lastsuccess = zeroTime, tried = False, refs = 1\<rparr>"

definition demo1 :: AddrManager where
  "demo1 = demo0\<lparr>store := (store demo0)(0 := demoKA (addr4 1 2 3 4 100 1) (addr4 5 6 7 8 0 1)),
                 nalloc := 1,
                 addrIndex := [(demoKey (addr4 1 2 3 4 100 1), 0)],
                 addrNew := (addrNew demo0)(0 := [(demoKey (addr4 1 2 3 4 100 1), 0)]),
                 nNew := 1\<rparr>"

text \<open>\<open>demo21\<close>: twenty-one tried addresses, each with a success on record.\<close>

definition demo21 :: AddrManager where
  "demo21 = demo0\<lparr>store := (\<lambda>p. (demoKA (addr4 1 2 3 (of_nat p) 100 1) (addr4 5 6 7 8 0 1))
                                \<lparr>lastsuccess := 1000000000, lastattempt := 1000000000,
                                 tried := True, refs := 0\<rparr>),
                  nalloc := 21,
                  addrIndex := map (\<lambda>p. (demoKey (addr4 1 2 3 (of_nat p) 100 1), p)) [0..<21],
                  addrTried := (addrTried demo0)(0 := [0..<21]),
                  nTried := 21\<rparr>"

text \<open>\<open>sameGroup65\<close>: the 65 addresses 1.2.0.1 to 1.2.0.65, all of one group.\<close>

definition sameGroup65 :: "NetAddress list" where
  "sameGroup65 = map (\<lambda>i. addr4 1 2 0 (of_nat i) 100 1) [1..<66]"

text \<open>
  \<open>demo2\<close>: a new bucket with a bad record (five attempts, never a success) and one that
  is not bad.
\<close>

definition demo2 :: AddrManager where
  "demo2 = demo0\<lparr>store := (store demo0)
                   (0 := (demoKA (addr4 1 2 3 4 100 1) (addr4 5 6 7 8 0 1))\<lparr>attempts := 5\<rparr>,
                    1 := demoKA (addr4 1 2 3 5 200 1) (addr4 5 6 7 8 0 1)),
                 nalloc := 2,
                 addrIndex := [(demoKey (addr4 1 2 3 4 100 1), 0), (demoKey (addr4 1 2 3 5 200 1), 1)],
                 addrNew := (addrNew demo0)
                   (0 := [(demoKey (addr4 1 2 3 4 100 1), 0), (demoKey (addr4 1 2 3 5 200 1), 1)]),
                 nNew := 2\<rparr>"

text \<open>
  \<open>demoSnapBoth\<close>: a version-2 snapshot whose only address is listed in new bucket 0 and in
  tried bucket 0.
\<close>

definition demoSnapBoth :: serializedAddrManager where
  "demoSnapBoth =
     \<lparr>Version = 2, Key = replicate 32 9,
      Addresses = [\<lparr>Addr = demoKey (addr4 1 2 3 4 100 1), Src = demoKey (addr4 5 6 7 8 0 1),
                    Attempts = 0, TimeStamp = 0, LastAttempt = 0, LastSuccess = 0,
                    Services' = 1, SrcServices = 1\<rparr>],
      NewBuckets = (\<lambda>i. if i = 0 then [demoKey (addr4 1 2 3 4 100 1)] else []),
      TriedBuckets = (\<lambda>i. if i = 0 then [demoKey (addr4 1 2 3 4 100 1)] else [])\<rparr>"


section \<open>Properties\<close>

subsection \<open>The bucketer returns a bucket\<close>

lemma getNewBucket_less:
  "getNewBucket e a n s = Some b \<Longrightarrow> b < newBucketCount"
  by (auto simp: getNewBucket_def Let_def newBucketCount_def unat_mod_distrib
           split: option.splits intro: mod_less_divisor)

lemma Uint64_DoubleHashB:
  "hash_ok e \<Longrightarrow> LittleEndian_Uint64 (DoubleHashB e d)
     = Some (foldr (\<lambda>x acc. ucast x OR push_bit 8 acc) (take 8 (DoubleHashB e d)) 0)"
  by (simp add: hash_ok_def LittleEndian_Uint64_def not_less)

lemma getNewBucket_Some:
  "hash_ok e \<Longrightarrow> \<exists>b. getNewBucket e a n s = Some b"
  by (simp add: getNewBucket_def Let_def Uint64_DoubleHashB)

lemma getTriedBucket_Some:
  "hash_ok e \<Longrightarrow> \<exists>b. getTriedBucket e a n = Some b"
  by (simp add: getTriedBucket_def Let_def Uint64_DoubleHashB)

lemma getTriedBucket_less:
  "getTriedBucket e a n = Some b \<Longrightarrow> b < triedBucketCount"
  by (auto simp: getTriedBucket_def Let_def triedBucketCount_def unat_mod_distrib
           split: option.splits intro: mod_less_divisor)

subsection \<open>Facts about the concrete instances\<close>

lemma hash_ok_demo [simp]: "hash_ok (demo_env H bad)"
  by (auto simp: hash_ok_def demo_env_def)

lemma Uint64_zeros: "LittleEndian_Uint64 (replicate 32 0) = Some 0"
  by (simp add: LittleEndian_Uint64_def eval_nat_numeral)

lemma getNewBucket_demo0 [simp]: "getNewBucket (demo_env (\<lambda>d. []) bad) a n s = Some 0"
  by (simp add: getNewBucket_def demo_env_def Uint64_zeros newBucketCount_def)

lemma getTriedBucket_demo0 [simp]: "getTriedBucket (demo_env (\<lambda>d. []) bad) a n = Some 0"
  by (simp add: getTriedBucket_def demo_env_def Uint64_zeros triedBucketCount_def)

lemma demo_env_sel [simp]:
  "IsRoutable (demo_env H bad) n = (length (IP n) = 4 \<and> take 1 (IP n) \<noteq> [127])"
  "NetAddressKey (demo_env H bad) = demoKey"
  "GroupKey (demo_env H bad) = demoGroup"
  "isBad (demo_env H bad) = bad"
  by (simp_all add: demo_env_def)

lemma New_demo0: "New (sconst 0) (Some (replicate 32 7)) = Some demo0"
  by (simp add: New_def reset_def demo0_def serialisationVersion_def)

lemma AddAddress_demo1:
  "AddAddress (demo_env (\<lambda>d. []) bad) (addr4 1 2 3 4 100 1) (addr4 5 6 7 8 0 1) demo0 = Some demo1"
  by (simp add: AddAddress_def updateAddress_def find_ka_def addToNewBucket_def Let_def
        newBucketSize_def demo0_def demo1_def demoKA_def addr4_def demoKey_def)


lemma demoE_sel [simp]:
  "IsRoutable demoE n = (length (IP n) = 4 \<and> take 1 (IP n) \<noteq> [127])"
  "NetAddressKey demoE = demoKey"
  "GroupKey demoE = demoGroup"
  "isBad demoE ka = (5 \<le> attempts ka)"
  "hash_ok demoE"
  "getNewBucket demoE a n s = Some 0"
  "getTriedBucket demoE a n = Some 0"
  by (simp_all add: demoE_def)

subsection \<open>The bucketer is a function of the key, the groups and the fingerprint\<close>

text \<open>
  C8: with the key fixed, \<^verbatim>\<open>getNewBucket\<close> and \<^verbatim>\<open>getTriedBucket\<close> are deterministic, and
  their result depends on the manager only through its key and on the addresses only
  through their groups (new tier) or the fingerprint and the group (tried tier): two
  managers with the same key give two addresses with equal groups (and, for the tried
  tier, equal fingerprints) the same bucket.
\<close>

theorem bucketer_deterministic:
  "(key a = key a' \<and> GroupKey e n = GroupKey e n' \<and> GroupKey e s = GroupKey e s'
      \<longrightarrow> getNewBucket e a n s = getNewBucket e a' n' s')
   \<and> (key a = key a' \<and> NetAddressKey e n = NetAddressKey e n' \<and> GroupKey e n = GroupKey e n'
      \<longrightarrow> getTriedBucket e a n = getTriedBucket e a' n')"
  by (auto simp: getNewBucket_def getTriedBucket_def Let_def split: option.splits)

theorem bucketer_deterministic_witness:
  "getNewBucket demoE demo0 (addr4 1 2 3 4 100 1) (addr4 5 6 7 8 0 1)
     = getNewBucket demoE demo1 (addr4 1 2 9 9 200 3) (addr4 5 6 0 0 50 0)
   \<and> getTriedBucket demoE demo0 (addr4 1 2 3 4 100 1)
     = getTriedBucket demoE demo1 (addr4 1 2 3 4 200 3)"
  using bucketer_deterministic [of demo0 demo1 demoE "addr4 1 2 3 4 100 1"
          "addr4 1 2 9 9 200 3" "addr4 5 6 7 8 0 1" "addr4 5 6 0 0 50 0"]
        bucketer_deterministic [of demo0 demo1 demoE "addr4 1 2 3 4 100 1"
          "addr4 1 2 3 4 200 3" "addr4 5 6 7 8 0 1" "addr4 5 6 0 0 50 0"]
  by (simp add: demo0_def demo1_def addr4_def demoGroup_def demoKey_def del: demoE_sel(6,7))

subsection \<open>Resighting a known address\<close>

lemma dropRef_na [simp]: "na (store (dropRef b k v a) q) = na (store a q)"
  by (simp add: dropRef_def Let_def)

lemma expireNew_loop_na:
  "na (store (snd (expireNew_loop e b xs old a)) q) = na (store a q)"
  by (induction e b xs old a rule: expireNew_loop.induct) (auto split: option.splits)

lemma expireNew_na [simp]: "na (store (expireNew e b a) q) = na (store a q)"
  using expireNew_loop_na [of e b "addrNew a b" None a q]
  by (auto simp: expireNew_def split: prod.splits option.splits)

lemma addToNewBucket_na:
  "addToNewBucket e n s addr p a = Some a' \<Longrightarrow> na (store a' q) = na (store a q)"
  by (auto simp: addToNewBucket_def Let_def split: option.splits if_splits)

lemma addToNewBucket_Some:
  "hash_ok e \<Longrightarrow> \<exists>a'. addToNewBucket e n s addr p a = Some a'"
  using getNewBucket_Some [of e a n s]
  by (auto simp: addToNewBucket_def Let_def split: option.splits)

lemma factor_pos:
  "1 \<le> r \<Longrightarrow> r \<le> 8 \<Longrightarrow> 0 < sint (word_of_int (2 * r) :: 32 word)"
proof -
  assume "1 \<le> r" "r \<le> 8"
  then have "r \<in> {1, 2, 3, 4, 5, 6, 7, 8}" by auto
  then show ?thesis by auto
qed

lemma lacks_bits_iff:
  "((x :: 64 word) AND y \<noteq> y) = (y AND NOT x \<noteq> 0)"
  by (auto simp: bit_eq_iff bit_and_iff bit_not_iff)

lemma updateAddress_known_na:
  assumes "hash_ok e" "IsRoutable e netAddr" "find_ka e a netAddr = Some p"
    and "tried (store a p) \<or> (1 \<le> refs (store a p) \<and> refs (store a p) \<le> 8)"
  shows "\<exists>a'. updateAddress e netAddr src a = Some a'
           \<and> na (store a' p) =
               (if Timestamp (na (store a p)) < Timestamp netAddr
                   \<or> (Services (na (store a p)) AND Services netAddr) \<noteq> Services netAddr
                then (na (store a p))\<lparr>Timestamp := Timestamp netAddr,
                       Services := Services (na (store a p)) OR Services netAddr\<rparr>
                else na (store a p))"
proof -
  define a1 where "a1 = (if Timestamp (na (store a p)) < Timestamp netAddr
                           \<or> (Services (na (store a p)) AND Services netAddr) \<noteq> Services netAddr
                        then a\<lparr>store := (store a)(p := (store a p)\<lparr>na := (na (store a p))
                                 \<lparr>Timestamp := Timestamp netAddr,
                                  Services := Services (na (store a p)) OR Services netAddr\<rparr>\<rparr>)\<rparr>
                        else a)"
  have na1: "na (store a1 p) =
               (if Timestamp (na (store a p)) < Timestamp netAddr
                   \<or> (Services (na (store a p)) AND Services netAddr) \<noteq> Services netAddr
                then (na (store a p))\<lparr>Timestamp := Timestamp netAddr,
                       Services := Services (na (store a p)) OR Services netAddr\<rparr>
                else na (store a p))"
    by (simp add: a1_def)
  have t1: "tried (store a1 p) = tried (store a p)" and r1: "refs (store a1 p) = refs (store a p)"
    by (simp_all add: a1_def)
  have upd: "updateAddress e netAddr src a =
       (if tried (store a1 p) then Some a1
        else if refs (store a1 p) = newBucketsPerAddress then Some a1
        else (let factor = sint (word_of_int (2 * refs (store a1 p)) :: 32 word)
              in if factor \<le> 0 then None
                 else (case draw (nat factor) a1 of
                         (r, a2) \<Rightarrow> if r \<noteq> 0 then Some a2
                                    else addToNewBucket e netAddr src (NetAddressKey e netAddr) p a2)))"
    using assms(2,3) by (simp add: updateAddress_def Let_def a1_def)
  show ?thesis
  proof (cases "tried (store a1 p) \<or> refs (store a1 p) = newBucketsPerAddress")
    case True
    then show ?thesis using upd na1 by auto
  next
    case False
    then have pos: "0 < sint (word_of_int (2 * refs (store a1 p)) :: 32 word)"
      using assms(4) t1 r1 factor_pos by auto
    obtain r a2 where d: "draw (nat (sint (word_of_int (2 * refs (store a1 p)) :: 32 word))) a1 = (r, a2)"
      by (cases "draw (nat (sint (word_of_int (2 * refs (store a1 p)) :: 32 word))) a1")
    have s2: "store a2 = store a1" using d by (auto simp: draw_def)
    show ?thesis
    proof (cases "r = 0")
      case True
      obtain a' where a': "addToNewBucket e netAddr src (NetAddressKey e netAddr) p a2 = Some a'"
        using addToNewBucket_Some [OF assms(1)] by blast
      have "updateAddress e netAddr src a = Some a'"
        using upd False pos d True a' by (simp add: Let_def)
      moreover have "na (store a' p) = na (store a1 p)"
        using addToNewBucket_na [OF a'] s2 by simp
      ultimately show ?thesis using na1 by simp
    next
      case r: False
      have "updateAddress e netAddr src a = Some a2"
        using upd False pos d r by (simp add: Let_def)
      then show ?thesis using na1 s2 by simp
    qed
  qed
qed

text \<open>
  C3 (as amended): for a routable \<open>netAddr\<close> whose fingerprint is known as record \<open>p\<close>
  (tried, or with 1 to 8 references), \<^verbatim>\<open>updateAddress\<close> returns, and if \<open>netAddr\<close>'s
  timestamp is later than the record's or \<open>netAddr\<close> has service bits the record lacks,
  the record's address is replaced by a copy whose timestamp is \<open>netAddr\<close>'s timestamp and
  whose services are the union of the two service bitmaps (IP and port as before);
  otherwise the record's address is unchanged. The copy's timestamp is the later of the
  two whenever \<open>netAddr\<close>'s timestamp is the later one; when only the services test
  fires it is \<open>netAddr\<close>'s timestamp all the same, which is then not the later one
  (the counterexample below: 50 where the record had 100).
\<close>

theorem updateAddress_resighted:
  assumes "hash_ok e" and "IsRoutable e netAddr" and "find_ka e a netAddr = Some p"
    and "tried (store a p) \<or> (1 \<le> refs (store a p) \<and> refs (store a p) \<le> 8)"
  shows "\<exists>a'. updateAddress e netAddr src a = Some a' \<and>
           (if Timestamp (na (store a p)) < Timestamp netAddr
               \<or> Services netAddr AND NOT (Services (na (store a p))) \<noteq> 0
            then na (store a' p) = (na (store a p))
                   \<lparr>Timestamp := Timestamp netAddr,
                    Services := Services (na (store a p)) OR Services netAddr\<rparr>
            else na (store a' p) = na (store a p))
           \<and> (Timestamp (na (store a p)) < Timestamp netAddr \<longrightarrow>
                 Timestamp (na (store a' p))
                   = max (Timestamp (na (store a p))) (Timestamp netAddr))"
proof -
  obtain a' where 1: "updateAddress e netAddr src a = Some a'"
    and 2: "na (store a' p) =
               (if Timestamp (na (store a p)) < Timestamp netAddr
                   \<or> (Services (na (store a p)) AND Services netAddr) \<noteq> Services netAddr
                then (na (store a p))\<lparr>Timestamp := Timestamp netAddr,
                       Services := Services (na (store a p)) OR Services netAddr\<rparr>
                else na (store a p))"
    using updateAddress_known_na [OF assms] by blast
  show ?thesis
    using 1 2 by (auto simp: lacks_bits_iff max_def)
qed

theorem updateAddress_resighted_witness:
  "find_ka demoE demo1 (addr4 1 2 3 4 50 2) = Some 0
   \<and> na (store demo1 0) = addr4 1 2 3 4 100 1
   \<and> (\<exists>a'. updateAddress demoE (addr4 1 2 3 4 50 2) (addr4 5 6 7 8 0 1) demo1 = Some a'
         \<and> na (store a' 0) = addr4 1 2 3 4 50 3)
   \<and> (\<exists>a'. updateAddress demoE (addr4 1 2 3 4 200 1) (addr4 5 6 7 8 0 1) demo1 = Some a'
         \<and> na (store a' 0) = addr4 1 2 3 4 200 1)
   \<and> (\<exists>a'. updateAddress demoE (addr4 1 2 3 4 200 6) (addr4 5 6 7 8 0 1) demo1 = Some a'
         \<and> na (store a' 0) = addr4 1 2 3 4 200 7)
   \<and> (\<exists>a'. updateAddress demoE (addr4 1 2 3 4 50 1) (addr4 5 6 7 8 0 1) demo1 = Some a'
         \<and> na (store a' 0) = addr4 1 2 3 4 100 1)"
  using updateAddress_resighted [of demoE "addr4 1 2 3 4 50 2" demo1 0 "addr4 5 6 7 8 0 1"]
        updateAddress_resighted [of demoE "addr4 1 2 3 4 200 1" demo1 0 "addr4 5 6 7 8 0 1"]
        updateAddress_resighted [of demoE "addr4 1 2 3 4 200 6" demo1 0 "addr4 5 6 7 8 0 1"]
        updateAddress_resighted [of demoE "addr4 1 2 3 4 50 1" demo1 0 "addr4 5 6 7 8 0 1"]
  apply (simp add: find_ka_def demo1_def demo0_def demoKA_def addr4_def demoKey_def)
  apply blast
  done

theorem updateAddress_later_timestamp_counterexample:
  "find_ka demoE demo1 (addr4 1 2 3 4 50 2) = Some 0
   \<and> IsRoutable demoE (addr4 1 2 3 4 50 2)
   \<and> Timestamp (na (store demo1 0)) = 100
   \<and> Timestamp (addr4 1 2 3 4 50 2) = 50
   \<and> Services (addr4 1 2 3 4 50 2) AND NOT (Services (na (store demo1 0))) \<noteq> 0
   \<and> map_option (\<lambda>a'. Timestamp (na (store a' 0)))
        (updateAddress demoE (addr4 1 2 3 4 50 2) (addr4 5 6 7 8 0 1) demo1) = Some 50
   \<and> max (100 :: int) 50 \<noteq> 50"
  by (simp add: updateAddress_def find_ka_def addToNewBucket_def Let_def draw_def
        newBucketsPerAddress_def demo1_def demo0_def demoKA_def addr4_def demoKey_def)

subsection \<open>Connected touches one timestamp\<close>

text \<open>
  C9: \<^verbatim>\<open>Connected\<close> leaves the key, the index, every new and tried bucket, \<^verbatim>\<open>nNew\<close> and
  \<^verbatim>\<open>nTried\<close> unchanged; in every record it leaves the source, the attempts, the last
  attempt, the last success, \<^verbatim>\<open>refs\<close>, \<^verbatim>\<open>tried\<close> and the address's services, IP and port
  unchanged; every record other than the one found for \<open>addr\<close> is unchanged; the found
  record's timestamp becomes the clock's value (\<open>now'\<close>, read for the copy) exactly when the
  clock (\<open>now\<close>, read for the test) is more than twenty minutes after the old timestamp;
  and for an address that is not in the table nothing changes.
\<close>

theorem Connected_frame:
  "(let a' = Connected e now now' addr a in
      key a' = key a \<and> rand a' = rand a \<and> nalloc a' = nalloc a \<and> version a' = version a
      \<and> addrIndex a' = addrIndex a \<and> addrNew a' = addrNew a \<and> addrTried a' = addrTried a
      \<and> nTried a' = nTried a \<and> nNew a' = nNew a
      \<and> (\<forall>q. srcAddr (store a' q) = srcAddr (store a q)
             \<and> attempts (store a' q) = attempts (store a q)
             \<and> lastattempt (store a' q) = lastattempt (store a q)
             \<and> lastsuccess (store a' q) = lastsuccess (store a q)
             \<and> refs (store a' q) = refs (store a q)
             \<and> tried (store a' q) = tried (store a q)
             \<and> Services (na (store a' q)) = Services (na (store a q))
             \<and> IP (na (store a' q)) = IP (na (store a q))
             \<and> Port (na (store a' q)) = Port (na (store a q)))
      \<and> (\<forall>q. find_ka e a addr \<noteq> Some q \<longrightarrow> store a' q = store a q)
      \<and> (\<forall>p. find_ka e a addr = Some p \<longrightarrow>
             Timestamp (na (store a' p)) =
               (if Timestamp (na (store a p)) + 20 * 60 * 1000000000 < now then now'
                else Timestamp (na (store a p))))
      \<and> (find_ka e a addr = None \<longrightarrow> a' = a))"
  by (auto simp: Connected_def Let_def split: option.splits)

theorem Connected_frame_witness:
  "find_ka demoE demo1 (addr4 1 2 3 4 0 0) = Some 0
   \<and> Timestamp (na (store demo1 0)) = 100
   \<and> Timestamp (na (store (Connected demoE 1200000000101 1200000000105 (addr4 1 2 3 4 0 0) demo1) 0))
       = 1200000000105
   \<and> Timestamp (na (store (Connected demoE 1200000000100 1200000000105 (addr4 1 2 3 4 0 0) demo1) 0))
       = 100
   \<and> refs (store (Connected demoE 1200000000101 1200000000105 (addr4 1 2 3 4 0 0) demo1) 0) = 1
   \<and> addrNew (Connected demoE 1200000000101 1200000000105 (addr4 1 2 3 4 0 0) demo1) = addrNew demo1
   \<and> find_ka demoE demo1 (addr4 9 9 9 9 0 0) = None
   \<and> Connected demoE 1200000000101 1200000000105 (addr4 9 9 9 9 0 0) demo1 = demo1"
  using Connected_frame [of demoE 1200000000101 1200000000105 "addr4 1 2 3 4 0 0" demo1]
        Connected_frame [of demoE 1200000000100 1200000000105 "addr4 1 2 3 4 0 0" demo1]
        Connected_frame [of demoE 1200000000101 1200000000105 "addr4 9 9 9 9 0 0" demo1]
  by (simp add: Let_def find_ka_def demo1_def demo0_def demoKA_def addr4_def demoKey_def)

subsection \<open>A sweep that starts at bucket 0 looks at nothing\<close>

lemma draw_sconst0: "rand a = sconst 0 \<Longrightarrow> draw n a = (0, a)"
  by (simp add: draw_def)

lemma triedSweep_zero: "triedSweep e now r ok 0 0 a = (None, a)"
  by (subst triedSweep.simps) simp

lemma untriedSweep_zero: "untriedSweep e now r ok 0 0 a = (None, a)"
  by (subst untriedSweep.simps) simp

lemma getTriedAddress_zero:
  "shd (rand a) mod triedBucketCount = 0
   \<Longrightarrow> getTriedAddress e now r ok a = (None, a\<lparr>rand := stl (rand a)\<rparr>)"
  by (simp add: getTriedAddress_def draw_def triedSweep_zero)

lemma getUntriedAddress_zero:
  "shd (rand a) mod newBucketCount = 0
   \<Longrightarrow> getUntriedAddress e now r ok a = (None, a\<lparr>rand := stl (rand a)\<rparr>)"
  by (simp add: getUntriedAddress_def draw_def untriedSweep_zero)

lemma triedFirst_sconst0: "rand a = sconst 0 \<Longrightarrow> snd (triedFirst a) = a"
  by (simp add: triedFirst_def draw_sconst0)

lemma getAddress_sconst0:
  assumes "rand a = sconst 0"
  shows "getAddress e now r ok a = (None, a)"
proof -
  have t: "\<And>r. getTriedAddress e now r ok a = (None, a)"
    using assms getTriedAddress_zero [of a e now _ ok] by simp
  have u: "\<And>r. getUntriedAddress e now r ok a = (None, a)"
    using assms getUntriedAddress_zero [of a e now _ ok] by simp
  obtain c where c: "triedFirst a = (c, a)"
    using triedFirst_sconst0 [OF assms] by (cases "triedFirst a") auto
  have relaxed: "getAddress e now True ok a = (None, a)"
    by (subst getAddress.simps) (simp add: c t u split: bool.splits)
  show ?thesis
    by (subst getAddress.simps) (simp add: c t u relaxed split: bool.splits)
qed

text \<open>
  C10: when the draw for the starting bucket is 0, the sweep of \<^verbatim>\<open>getTriedAddress\<close> and of
  \<^verbatim>\<open>getUntriedAddress\<close> (from \<open>startBucket\<close> while below \<open>startBucket * 2\<close>) runs no
  iteration, and the scan returns nil whatever the buckets hold; so when every draw is 0,
  \<^verbatim>\<open>GetAddress\<close> returns nothing. The witness is a manager whose only address passes
  the quality filter and is still not returned.
\<close>

theorem sweep_from_bucket_zero:
  "(shd (rand a) mod triedBucketCount = 0
      \<longrightarrow> getTriedAddress e now r ok a = (None, a\<lparr>rand := stl (rand a)\<rparr>))
   \<and> (shd (rand a) mod newBucketCount = 0
      \<longrightarrow> getUntriedAddress e now r ok a = (None, a\<lparr>rand := stl (rand a)\<rparr>))
   \<and> (rand a = sconst 0 \<longrightarrow> GetAddress e now ok a = (None, a))"
  by (simp add: getTriedAddress_zero getUntriedAddress_zero GetAddress_def getAddress_sconst0)

theorem sweep_from_bucket_zero_witness:
  "map_of (addrNew demo1 0) (demoKey (addr4 1 2 3 4 100 1)) = Some 0
   \<and> isGoodAddress demoE 0 (store demo1 0) True (\<lambda>ka. True)
   \<and> numAddresses demo1 = 1
   \<and> getTriedAddress demoE 0 True (\<lambda>ka. True) demo1 = (None, demo1)
   \<and> getUntriedAddress demoE 0 True (\<lambda>ka. True) demo1 = (None, demo1)
   \<and> GetAddress demoE 0 (\<lambda>ka. True) demo1 = (None, demo1)"
proof -
  have r: "rand demo1 = sconst 0" and s: "demo1\<lparr>rand := sconst 0\<rparr> = demo1"
    by (simp_all add: demo1_def demo0_def)
  have g: "isGoodAddress demoE 0 (store demo1 0) True (\<lambda>ka. True)"
    by (simp add: isGoodAddress_def demoE_def demo_env_def demo1_def demo0_def demoKA_def
          zeroTime_def)
  show ?thesis
    using sweep_from_bucket_zero [of demo1 demoE 0 True "\<lambda>ka. True"] r s g
    by (simp add: numAddresses_def demo1_def demo0_def)
qed

subsection \<open>How many addresses are shared\<close>

lemma shuffle_loop_perm:
  "n \<le> length xs \<Longrightarrow>
   \<exists>ys g'. shuffle_loop n i xs g = Some (ys, g') \<and> mset ys = mset xs"
proof (induction n i xs g rule: shuffle_loop.induct)
  case (1 n i xs g)
  show ?case
  proof (cases "i < n")
    case False
    then show ?thesis by (subst shuffle_loop.simps) simp
  next
    case True
    then have i: "i < length xs" using "1.prems" by simp
    define j where "j = shd g mod (length xs - i) + i"
    have "shd g mod (length xs - i) < length xs - i"
      using i by simp
    then have j: "j < length xs"
      unfolding j_def by linarith
    define xs' where "xs' = xs[i := xs ! j, j := xs ! i]"
    have m: "mset xs' = mset xs"
      unfolding xs'_def using i j by (simp add: mset_swap)
    have nl: "\<not> length xs \<le> i" using i by simp
    have "n \<le> length (xs[i := xs ! j, j := xs ! i])" using "1.prems" by simp
    then obtain ys g' where r: "shuffle_loop n (Suc i) xs' (stl g) = Some (ys, g')"
      and p: "mset ys = mset xs'"
      using "1.IH" [OF True nl j_def] unfolding xs'_def by blast
    have "shuffle_loop n i xs g = Some (ys, g')"
      using True i r by (subst shuffle_loop.simps) (simp add: Let_def j_def xs'_def)
    then show ?thesis using p m by simp
  qed
qed

lemma AddressesToShare_result:
  fixes a :: AddrManager
  defines "worked \<equiv> filter (\<lambda>(k, v). 0 < lastsuccess (store a v)) (addrIndex a)"
  defines "pct \<equiv> length worked * 23 div 100"
  shows "\<exists>res g'. AddressesToShare a g = Some (res, g')
           \<and> length res = (if 5000 < pct then 5000 else if pct < 20 then length worked else pct)
           \<and> (\<exists>rest. mset (res @ rest) = mset (map (\<lambda>(k, v). na (store a v)) worked))"
proof -
  define allAddr where "allAddr = addressesThatOnceWorked a"
  have all: "allAddr = map (\<lambda>(k, v). na (store a v)) worked"
    by (simp add: allAddr_def addressesThatOnceWorked_def worked_def Let_def)
  have len: "length allAddr = length worked" by (simp add: all)
  define n where "n = (if 5000 < pct then 5000 else if pct < 20 then length worked else pct)"
  have "pct \<le> length worked" by (simp add: pct_def)
  then have n: "n \<le> length allAddr" by (simp add: n_def len)
  obtain ys g' where s: "shuffle_loop n 0 allAddr g = Some (ys, g')" and p: "mset ys = mset allAddr"
    using shuffle_loop_perm [OF n] by blast
  have ly: "length ys = length allAddr" using p by (metis size_mset)
  have eq: "(if getAddrMax < length allAddr * getAddrPercent div 100 then getAddrMax
             else if length allAddr * getAddrPercent div 100 < getAddrMin then length allAddr
             else length allAddr * getAddrPercent div 100) = n"
    by (simp add: n_def pct_def len getAddrPercent_def getAddrMax_def getAddrMin_def)
  have "AddressesToShare a g = Some (take n ys, g')"
    unfolding AddressesToShare_def Let_def allAddr_def [symmetric] eq using s by simp
  moreover have "length (take n ys) = n" using n ly by simp
  moreover have "mset (take n ys @ drop n ys) = mset (map (\<lambda>(k, v). na (store a v)) worked)"
    using p all by simp
  ultimately show ?thesis unfolding n_def by blast
qed

text \<open>
  C4 (as amended): when \<open>count\<close> addresses of the table have \<^verbatim>\<open>lastsuccess > 0\<close>,
  \<^verbatim>\<open>AddressesToShare\<close> returns a prefix of a permutation of those addresses; its size is
  5000 when \<open>count * 23 / 100 > 5000\<close>, \<open>count\<close> (all of them) when \<open>count * 23 / 100 < 20\<close>,
  and \<open>count * 23 / 100\<close> otherwise; in particular it returns all of them when
  \<open>count < 20\<close>.
\<close>

theorem AddressesToShare_size:
  "(let count = length (filter (\<lambda>(k, v). 0 < lastsuccess (store a v)) (addrIndex a));
        pct = count * 23 div 100
    in \<exists>res g'. AddressesToShare a g = Some (res, g')
         \<and> length res = (if 5000 < pct then 5000 else if pct < 20 then count else pct)
         \<and> (\<exists>rest. mset (res @ rest)
                = mset (map (\<lambda>(k, v). na (store a v))
                         (filter (\<lambda>(k, v). 0 < lastsuccess (store a v)) (addrIndex a))))
         \<and> (count < 20 \<longrightarrow> length res = count))"
proof -
  have "length (filter (\<lambda>(k, v). 0 < lastsuccess (store a v)) (addrIndex a)) < 20
        \<Longrightarrow> length (filter (\<lambda>(k, v). 0 < lastsuccess (store a v)) (addrIndex a)) * 23 div 100 < 20"
    by linarith
  then show ?thesis
    using AddressesToShare_result [of a g] unfolding Let_def by fastforce
qed

lemma demo21_count:
  "length (filter (\<lambda>(k, v). 0 < lastsuccess (store demo21 v)) (addrIndex demo21)) = 21"
  by (simp add: demo21_def demoKA_def filter_map comp_def)

theorem AddressesToShare_size_witness:
  "length (filter (\<lambda>(k, v). 0 < lastsuccess (store demo21 v)) (addrIndex demo21)) = 21
   \<and> (\<exists>res g'. AddressesToShare demo21 (sconst 0) = Some (res, g') \<and> length res = 21)
   \<and> length (filter (\<lambda>(k, v). 0 < lastsuccess (store demo1 v)) (addrIndex demo1)) = 0
   \<and> (\<exists>res g'. AddressesToShare demo1 (sconst 0) = Some (res, g') \<and> length res = 0)"
proof -
  have 0: "length (filter (\<lambda>(k, v). 0 < lastsuccess (store demo1 v)) (addrIndex demo1)) = 0"
    by (simp add: demo1_def demo0_def demoKA_def zeroTime_def)
  show ?thesis
    using AddressesToShare_size [of demo21 "sconst 0"] AddressesToShare_size [of demo1 "sconst 0"]
    unfolding Let_def demo21_count 0 by auto
qed

theorem AddressesToShare_size_counterexample:
  "length (filter (\<lambda>(k, v). 0 < lastsuccess (store demo21 v)) (addrIndex demo21)) = 21
   \<and> map_option (\<lambda>r. length (fst r)) (AddressesToShare demo21 (sconst 0)) = Some 21
   \<and> min 5000 (max (21 * 23 div 100) (min 21 20)) = (20 :: nat)"
proof -
  obtain res g' where "AddressesToShare demo21 (sconst 0) = Some (res, g')" and "length res = 21"
    using AddressesToShare_result [of demo21 "sconst 0"] unfolding demo21_count by auto
  then show ?thesis by (simp add: demo21_count)
qed

subsection \<open>A new bucket can hold 65 records\<close>

lemma update_absent: "map_of al k = None \<Longrightarrow> AList.update k v al = al @ [(k, v)]"
  by (induction al) (auto split: if_splits)

lemma getNewBucket_key:
  "key a = key a' \<Longrightarrow> getNewBucket e a n s = getNewBucket e a' n s"
  by (auto simp: getNewBucket_def Let_def split: option.splits)

lemma updateAddress_fresh:
  assumes "IsRoutable e n" and "map_of (addrIndex a) (NetAddressKey e n) = None"
    and "getNewBucket e a n src = Some b"
    and "map_of (addrNew a b) (NetAddressKey e n) = None"
    and "length (addrNew a b) \<le> newBucketSize"
  shows "\<exists>a'. updateAddress e n src a = Some a'
           \<and> key a' = key a
           \<and> addrIndex a' = addrIndex a @ [(NetAddressKey e n, nalloc a)]
           \<and> addrNew a' b = addrNew a b @ [(NetAddressKey e n, nalloc a)]"
proof -
  define a1 where "a1 = a\<lparr>store := (store a)(nalloc a :=
                           \<lparr>na = n, srcAddr = src, attempts = 0, lastattempt = zeroTime,
                            lastsuccess = zeroTime, tried = False, refs = 0\<rparr>),
                         nalloc := Suc (nalloc a),
                         addrIndex := AList.update (NetAddressKey e n) (nalloc a) (addrIndex a),
                         nNew := nNew a + 1\<rparr>"
  have u: "updateAddress e n src a = addToNewBucket e n src (NetAddressKey e n) (nalloc a) a1"
    using assms(1,2) by (simp add: updateAddress_def find_ka_def Let_def a1_def)
  have b: "getNewBucket e a1 n src = Some b"
    using assms(3) getNewBucket_key [of a1 a e n src] by (simp add: a1_def)
  have n1: "addrNew a1 = addrNew a" by (simp add: a1_def)
  have "\<not> newBucketSize < length (addrNew a1 b)" using assms(5) n1 by simp
  then show ?thesis
    unfolding u addToNewBucket_def
    using b assms(2,4) n1 by (simp add: Let_def a1_def update_absent)
qed

lemma AddAddresses_one_bucket:
  assumes "\<forall>n \<in> set ns. IsRoutable e n \<and> getNewBucket e a n src = Some b"
    and "distinct (map (NetAddressKey e) ns)"
    and "\<forall>n \<in> set ns. map_of (addrIndex a) (NetAddressKey e n) = None
                      \<and> map_of (addrNew a b) (NetAddressKey e n) = None"
    and "length (addrNew a b) + length ns \<le> Suc newBucketSize"
  shows "\<exists>a'. AddAddresses e ns src a = Some a'
           \<and> map fst (addrNew a' b) = map fst (addrNew a b) @ map (NetAddressKey e) ns"
  using assms
proof (induction ns arbitrary: a)
  case Nil
  then show ?case by simp
next
  case (Cons n ns)
  have len: "length (addrNew a b) \<le> newBucketSize" using Cons.prems(4) by simp
  obtain a1 where u: "updateAddress e n src a = Some a1" and k: "key a1 = key a"
    and i1: "addrIndex a1 = addrIndex a @ [(NetAddressKey e n, nalloc a)]"
    and n1: "addrNew a1 b = addrNew a b @ [(NetAddressKey e n, nalloc a)]"
    using updateAddress_fresh [of e n a src b] Cons.prems(1,3) len by auto
  have 1: "\<forall>m \<in> set ns. IsRoutable e m \<and> getNewBucket e a1 m src = Some b"
    using Cons.prems(1) getNewBucket_key [OF k] by simp
  have 2: "distinct (map (NetAddressKey e) ns)" using Cons.prems(2) by simp
  have 3: "\<forall>m \<in> set ns. map_of (addrIndex a1) (NetAddressKey e m) = None
                      \<and> map_of (addrNew a1 b) (NetAddressKey e m) = None"
  proof
    fix m assume m: "m \<in> set ns"
    have "NetAddressKey e n \<notin> NetAddressKey e ` set ns" using Cons.prems(2) by simp
    then have "NetAddressKey e m \<noteq> NetAddressKey e n" using m by (metis imageI)
    then show "map_of (addrIndex a1) (NetAddressKey e m) = None
                      \<and> map_of (addrNew a1 b) (NetAddressKey e m) = None"
      using Cons.prems(3) m by (simp add: i1 n1 map_add_def)
  qed
  have 4: "length (addrNew a1 b) + length ns \<le> Suc newBucketSize"
    using Cons.prems(4) by (simp add: n1)
  obtain a' where "AddAddresses e ns src a1 = Some a'"
    and "map fst (addrNew a' b) = map fst (addrNew a1 b) @ map (NetAddressKey e) ns"
    using Cons.IH [OF 1 2 3 4] by blast
  then show ?case using u by (simp add: n1)
qed

lemma demoKey_inj: "length (IP n) = 4 \<Longrightarrow> length (IP m) = 4 \<Longrightarrow> Port n = Port m
   \<Longrightarrow> demoKey n = demoKey m \<Longrightarrow> IP n = IP m"
proof -
  assume a: "length (IP n) = 4" "length (IP m) = 4" "Port n = Port m" "demoKey n = demoKey m"
  then have "map (\<lambda>b. char_of (unat b)) (IP n) = map (\<lambda>b. char_of (unat b)) (IP m)"
    by (simp add: demoKey_def)
  moreover have "inj (\<lambda>b :: byte. (char_of (unat b) :: char))"
  proof (rule injI)
    fix x y :: byte
    assume "(char_of (unat x) :: char) = char_of (unat y)"
    then have "unat x mod 256 = unat y mod 256" by (simp add: char_of_eq_iff take_bit_eq_mod)
    moreover have "unat x < 256" "unat y < 256"
      using unsigned_less [of x, where ?'a = nat] unsigned_less [of y, where ?'a = nat]
      by simp_all
    ultimately show "x = y" by (simp add: word_unat_eq_iff)
  qed
  ultimately show ?thesis by (simp add: inj_map_eq_map)
qed

lemma sameGroup65_distinct: "distinct (map demoKey sameGroup65)"
proof -
  have "inj_on (\<lambda>i. demoKey (addr4 1 2 0 (of_nat i) 100 1)) {1..<66}"
  proof (rule inj_onI)
    fix i j :: nat
    assume ij: "i \<in> {1..<66}" "j \<in> {1..<66}"
      and "demoKey (addr4 1 2 0 (of_nat i) 100 1) = demoKey (addr4 1 2 0 (of_nat j) 100 1)"
    then have "IP (addr4 1 2 0 (of_nat i) 100 1) = IP (addr4 1 2 0 (of_nat j) 100 1)"
      by (intro demoKey_inj) (simp_all add: addr4_def)
    then have "(of_nat i :: byte) = of_nat j" by (simp add: addr4_def)
    then have "i mod 256 = j mod 256"
      by (simp add: word_of_nat_eq_iff take_bit_eq_mod)
    then show "i = j" using ij by simp
  qed
  then show ?thesis
    by (simp add: sameGroup65_def distinct_map comp_def)
qed

text \<open>
  C1 (refuted by the code): the claim is that no new bucket ever holds more than 64
  records. \<^verbatim>\<open>updateAddress\<close> expires only when the bucket holds more than \<^verbatim>\<open>newBucketSize\<close>
  entries, so a bucket of 64 takes one more: from a new manager, \<^verbatim>\<open>AddAddresses\<close> of the 65
  distinct addresses 1.2.0.1 to 1.2.0.65 (one group) from one source puts all 65 into one
  new bucket, whatever the key, the random source and the hash function are.
\<close>

theorem new_bucket_holds_65:
  "\<exists>a0 a b. New seed (Some k) = Some a0
     \<and> AddAddresses (demo_env H bad) sameGroup65 (addr4 1 2 3 4 0 1) a0 = Some a
     \<and> b < newBucketCount
     \<and> map fst (addrNew a b) = map demoKey sameGroup65
     \<and> length (addrNew a b) = 65
     \<and> newBucketSize = 64"
proof -
  define a0 where "a0 = \<lparr>key = k, rand = seed, store = (\<lambda>p. zeroKnownAddress), nalloc = 0,
        addrIndex = [], addrNew = (\<lambda>i. []), addrTried = (\<lambda>i. []),
        nTried = 0, nNew = 0, version = serialisationVersion\<rparr>"
  have new: "New seed (Some k) = Some a0"
    by (simp add: New_def reset_def a0_def)
  obtain b where b: "getNewBucket (demo_env H bad) a0 (addr4 1 2 0 1 100 1) (addr4 1 2 3 4 0 1) = Some b"
    using getNewBucket_Some [OF hash_ok_demo] by blast
  have same: "\<forall>n \<in> set sameGroup65. IsRoutable (demo_env H bad) n
                 \<and> getNewBucket (demo_env H bad) a0 n (addr4 1 2 3 4 0 1) = Some b"
    using b by (auto simp: sameGroup65_def addr4_def getNewBucket_def demoGroup_def)
  have "\<exists>a'. AddAddresses (demo_env H bad) sameGroup65 (addr4 1 2 3 4 0 1) a0 = Some a'
           \<and> map fst (addrNew a' b)
               = map fst (addrNew a0 b) @ map (NetAddressKey (demo_env H bad)) sameGroup65"
  proof (rule AddAddresses_one_bucket [OF same])
    show "distinct (map (NetAddressKey (demo_env H bad)) sameGroup65)"
      using sameGroup65_distinct by simp
    show "\<forall>n \<in> set sameGroup65.
            map_of (addrIndex a0) (NetAddressKey (demo_env H bad) n) = None
            \<and> map_of (addrNew a0 b) (NetAddressKey (demo_env H bad) n) = None"
      by (simp add: a0_def)
    show "length (addrNew a0 b) + length sameGroup65 \<le> Suc newBucketSize"
      by (simp add: a0_def sameGroup65_def newBucketSize_def)
  qed
  then obtain a where a: "AddAddresses (demo_env H bad) sameGroup65 (addr4 1 2 3 4 0 1) a0 = Some a"
    and m: "map fst (addrNew a b) = map demoKey sameGroup65"
    by (auto simp: a0_def)
  have "length (addrNew a b) = 65"
    using arg_cong [OF m, of length] by (simp add: sameGroup65_def)
  then show ?thesis
    using new a m getNewBucket_less [OF b] by (auto simp: newBucketSize_def)
qed

subsection \<open>What expireNew removes\<close>

lemma dropRef_store_other [simp]: "q \<noteq> v \<Longrightarrow> store (dropRef b k v a) q = store a q"
  by (simp add: dropRef_def Let_def)

lemma dropRef_bucket [simp]:
  "addrNew (dropRef b k v a) b = AList.delete k (addrNew a b)"
  by (simp add: dropRef_def Let_def)

lemma map_of_delete_None: "map_of al k = None \<Longrightarrow> map_of (AList.delete k' al) k = None"
  by (simp add: delete_conv')

lemma expireNew_loop_store_other:
  "q \<notin> snd ` set xs \<Longrightarrow> store (snd (expireNew_loop e b xs old a)) q = store a q"
  by (induction e b xs old a rule: expireNew_loop.induct) (auto split: option.splits)

lemma expireNew_loop_keeps_None:
  "map_of (addrNew a b) k = None \<Longrightarrow> map_of (addrNew (snd (expireNew_loop e b xs old a)) b) k = None"
  by (induction e b xs old a rule: expireNew_loop.induct)
     (auto split: option.splits simp: map_of_delete_None)

lemma expireNew_loop_removes_bad:
  "distinct (map snd xs) \<Longrightarrow> (k, v) \<in> set xs \<Longrightarrow> isBad e (store a v)
   \<Longrightarrow> map_of (addrNew (snd (expireNew_loop e b xs old a)) b) k = None"
proof (induction e b xs old a rule: expireNew_loop.induct)
  case (1 e bucket oldest a)
  then show ?case by simp
next
  case (2 e bucket k' v' rest oldest a)
  show ?case
  proof (cases "(k, v) = (k', v')")
    case True
    then show ?thesis
      using "2.prems" by (simp add: expireNew_loop_keeps_None delete_conv')
  next
    case False
    then have in_rest: "(k, v) \<in> set rest" using "2.prems"(2) by auto
    then have "v \<noteq> v'" using "2.prems"(1) by (auto simp: image_iff)
    then have "isBad e (store (dropRef bucket k' v' a) v)" using "2.prems"(3) by simp
    then show ?thesis
      using "2.IH" "2.prems" in_rest by (auto split: option.splits)
  qed
qed

lemma expireNew_loop_all_bad:
  "distinct (map snd xs) \<Longrightarrow> \<forall>(k, v) \<in> set xs. isBad e (store a v)
   \<Longrightarrow> fst (expireNew_loop e b xs old a) = old"
proof (induction e b xs old a rule: expireNew_loop.induct)
  case (1 e bucket oldest a)
  then show ?case by simp
next
  case (2 e bucket k' v' rest oldest a)
  have bad: "isBad e (store a v')" using "2.prems" by simp
  have "\<forall>(k, v) \<in> set rest. isBad e (store (dropRef bucket k' v' a) v)"
  proof (clarify)
    fix k v assume kv: "(k, v) \<in> set rest"
    then have "v \<noteq> v'" using "2.prems"(1) by (auto simp: image_iff)
    then show "isBad e (store (dropRef bucket k' v' a) v)" using "2.prems"(2) kv by auto
  qed
  then show ?case using "2.IH"(1) [OF bad] "2.prems"(1) bad by simp
qed

lemma expireNew_loop_oldest:
  "distinct (map snd xs) \<Longrightarrow> (\<exists>(k, v) \<in> set xs. \<not> isBad e (store a v)) \<or> old \<noteq> None
   \<Longrightarrow> fst (expireNew_loop e b xs old a) \<noteq> None"
proof (induction e b xs old a rule: expireNew_loop.induct)
  case (1 e bucket oldest a)
  then show ?case by simp
next
  case (2 e bucket k' v' rest oldest a)
  show ?case
  proof (cases "isBad e (store a v')")
    case True
    have "(\<exists>(k, v) \<in> set rest. \<not> isBad e (store (dropRef bucket k' v' a) v)) \<or> oldest \<noteq> None"
    proof (cases "oldest = None")
      case True
      then obtain k v where kv: "(k, v) \<in> set (((k', v')) # rest)" "\<not> isBad e (store a v)"
        using "2.prems"(2) by auto
      then have in_rest: "(k, v) \<in> set rest" using \<open>isBad e (store a v')\<close> by auto
      then have "v \<noteq> v'" using "2.prems"(1) by (auto simp: image_iff)
      then have "\<not> isBad e (store (dropRef bucket k' v' a) v)" using kv(2) by simp
      then show ?thesis using in_rest by auto
    qed simp
    then show ?thesis using "2.IH"(1) [OF True] "2.prems"(1) True by simp
  next
    case False
    then show ?thesis
      using "2.IH"(2,3,4) "2.prems"(1) by (auto split: option.splits)
  qed
qed

text \<open>The record the loop remembers as oldest is an entry of the bucket that is not bad.\<close>

lemma expireNew_loop_oldest_entry:
  "distinct (map snd xs) \<Longrightarrow> fst (expireNew_loop e b xs old a) = Some w
   \<Longrightarrow> old = Some w \<or> (\<exists>k. (k, w) \<in> set xs \<and> \<not> isBad e (store a w))"
proof (induction e b xs old a rule: expireNew_loop.induct)
  case (1 e bucket oldest a)
  then show ?case by simp
next
  case (2 e bucket k' v' rest oldest a)
  show ?case
  proof (cases "isBad e (store a v')")
    case True
    have "oldest = Some w \<or> (\<exists>k. (k, w) \<in> set rest \<and> \<not> isBad e (store (dropRef bucket k' v' a) w))"
      using "2.IH"(1) [OF True] "2.prems" True by simp
    moreover have "\<And>k. (k, w) \<in> set rest \<Longrightarrow> w \<noteq> v'"
      using "2.prems"(1) by (auto simp: image_iff)
    ultimately show ?thesis by auto
  next
    case False
    then show ?thesis
      using "2.IH"(2,3,4) "2.prems" by (auto split: option.splits if_splits)
  qed
qed

text \<open>
  C2 (refuted by the code): the claim is that \<^verbatim>\<open>expireNew\<close> removes exactly the bad entries
  and evicts the oldest entry only when no bad entry was removed. The code evicts the
  oldest entry that is not bad in every pass that meets one: in a bucket (distinct
  records, each under its own fingerprint) with a bad entry and an entry that is not bad,
  the bad entry is removed and an entry that is not bad is removed with it.
\<close>

theorem expireNew_evicts_beside_bad:
  assumes "distinct (map snd (addrNew a b))"
    and "\<forall>(k, v) \<in> set (addrNew a b). k = NetAddressKey e (na (store a v))"
    and "(kb, vb) \<in> set (addrNew a b)" and "isBad e (store a vb)"
    and "(kg, vg) \<in> set (addrNew a b)" and "\<not> isBad e (store a vg)"
  shows "map_of (addrNew (expireNew e b a) b) kb = None
         \<and> (\<exists>(k, v) \<in> set (addrNew a b).
               \<not> isBad e (store a v) \<and> map_of (addrNew (expireNew e b a) b) k = None)"
proof -
  obtain old a1 where r: "expireNew_loop e b (addrNew a b) None a = (old, a1)"
    by (cases "expireNew_loop e b (addrNew a b) None a")
  have "old \<noteq> None"
    using expireNew_loop_oldest [OF assms(1), of e a None b] assms(5,6) r by auto
  then obtain w where o: "old = Some w" by auto
  then obtain k where k: "(k, w) \<in> set (addrNew a b)" and good: "\<not> isBad e (store a w)"
    using expireNew_loop_oldest_entry [OF assms(1), of e b None a w] r by auto
  have na1: "na (store a1 w) = na (store a w)"
    using expireNew_loop_na [of e b "addrNew a b" None a w] r by simp
  have key: "NetAddressKey e (na (store a1 w)) = k"
    using assms(2) k na1 by auto
  have res: "expireNew e b a = dropRef b k w a1"
    by (simp add: expireNew_def r o key)
  have "map_of (addrNew a1 b) kb = None"
    using expireNew_loop_removes_bad [OF assms(1,3,4), of b None] r by simp
  then have 1: "map_of (addrNew (expireNew e b a) b) kb = None"
    by (simp add: res map_of_delete_None)
  have 2: "map_of (addrNew (expireNew e b a) b) k = None"
    by (simp add: res delete_conv')
  show ?thesis using 1 2 k good by auto
qed

theorem expireNew_evicts_beside_bad_witness:
  "map fst (addrNew demo2 0) = [demoKey (addr4 1 2 3 4 100 1), demoKey (addr4 1 2 3 5 200 1)]
   \<and> isBad demoE (store demo2 0) \<and> \<not> isBad demoE (store demo2 1)
   \<and> addrNew (expireNew demoE 0 demo2) 0 = []
   \<and> addrIndex (expireNew demoE 0 demo2) = []
   \<and> nNew (expireNew demoE 0 demo2) = 0"
proof -
  have e: "addrNew (expireNew demoE 0 demo2) 0 = []
           \<and> addrIndex (expireNew demoE 0 demo2) = [] \<and> nNew (expireNew demoE 0 demo2) = 0"
    by (simp add: expireNew_def dropRef_def Let_def demo2_def demo0_def demoKA_def addr4_def
          demoKey_def AList.delete_eq)
  have "map_of (addrNew (expireNew demoE 0 demo2) 0) (demoKey (addr4 1 2 3 4 100 1)) = None"
    using expireNew_evicts_beside_bad [of demo2 0 demoE "demoKey (addr4 1 2 3 4 100 1)" 0
            "demoKey (addr4 1 2 3 5 200 1)" 1]
    by (simp add: demo2_def demo0_def demoKA_def addr4_def demoKey_def)
  then show ?thesis
    using e by (simp add: demo2_def demo0_def demoKA_def)
qed

subsection \<open>Loading a snapshot that fails\<close>

lemma loadNewBuckets_empty:
  "\<forall>i \<in> set is. nb i = [] \<Longrightarrow> loadNewBuckets nb is a = (None, a)"
  by (induction "is") auto

lemma loadTriedBuckets_empty:
  "\<forall>i \<in> set is. tb i = [] \<Longrightarrow> loadTriedBuckets tb is a = (None, a)"
  by (induction "is") auto

lemma loadNewBuckets_first_only:
  "\<forall>i. 0 < i \<longrightarrow> nb i = [] \<Longrightarrow>
   loadNewBuckets nb [0..<newBucketCount] a = loadNewBucket 0 (nb 0) a"
proof -
  assume e: "\<forall>i. 0 < i \<longrightarrow> nb i = []"
  have u: "[0..<newBucketCount] = 0 # [Suc 0..<newBucketCount]"
    by (rule upt_conv_Cons) (simp add: newBucketCount_def)
  have "\<And>a1. loadNewBuckets nb [Suc 0..<newBucketCount] a1 = (None, a1)"
    using e by (intro loadNewBuckets_empty) simp
  then show ?thesis
    unfolding u by (cases "loadNewBucket 0 (nb 0) a") (auto split: option.splits)
qed

lemma loadTriedBuckets_first_only:
  "\<forall>i. 0 < i \<longrightarrow> tb i = [] \<Longrightarrow>
   loadTriedBuckets tb [0..<triedBucketCount] a = loadTriedBucket 0 (tb 0) a"
proof -
  assume e: "\<forall>i. 0 < i \<longrightarrow> tb i = []"
  have u: "[0..<triedBucketCount] = 0 # [Suc 0..<triedBucketCount]"
    by (rule upt_conv_Cons) (simp add: triedBucketCount_def)
  have "\<And>a1. loadTriedBuckets tb [Suc 0..<triedBucketCount] a1 = (None, a1)"
    using e by (intro loadTriedBuckets_empty) simp
  then show ?thesis
    unfolding u by (cases "loadTriedBucket 0 (tb 0) a") (auto split: option.splits)
qed

lemma loadPeers_newer_version:
  "serialisationVersion < Version sam \<Longrightarrow>
   loadPeers e True entropy (Snapshot sam) a
     = (Some (ErrVersion (Version sam)), reset entropy a, Missing)"
  by (simp add: loadPeers_def deserializePeers_def)

lemma byte_of_unat_mod: "(word_of_nat (unat b mod 256) :: byte) = b"
proof -
  have "unat b < 256" using unsigned_less [of b, where ?'a = nat] by simp
  then have "unat b mod 256 = unat b" by simp
  then show ?thesis by (simp only: of_nat_unat ucast_id)
qed

lemma DeserializeNetAddress_demo1:
  "DeserializeNetAddress demoE (demoKey (addr4 b0 b1 b2 b3 ts sv)) sv'
     = Some \<lparr>Timestamp = demoLoadTime, Services = sv', IP = [b0, b1, b2, b3], Port = 8333\<rparr>"
  by (simp add: DeserializeNetAddress_def HostToNetAddress_def demoE_def demo_env_def demoKey_def
        demoSplit_def demoIP_def demoPort_def addr4_def byte_of_unat_mod)

text \<open>
  C7 (refuted by the code for a failed sanity check): the claim is that a file that fails
  to load leaves the manager empty, in its fresh reset state. \<^verbatim>\<open>reset\<close> replaces the index
  and the buckets but not the counters, so what \<^verbatim>\<open>deserializePeers\<close> counted before it
  failed stays: from a new manager, loading the version-2 snapshot \<open>demoSnapBoth\<close> reports
  the error, removes the file and empties the index, and leaves \<^verbatim>\<open>nNew = 1\<close> and
  \<^verbatim>\<open>nTried = 1\<close>, so \<^verbatim>\<open>numAddresses\<close> is 2 for a table with no record.
\<close>

theorem loadPeers_failed_sanity_keeps_counters:
  "New (sconst 0) (Some (replicate 32 7)) = Some demo0
   \<and> numAddresses demo0 = 0
   \<and> (case loadPeers demoE True (Some (replicate 32 3)) (Snapshot demoSnapBoth) demo0 of
        (err, a, file) \<Rightarrow>
          err = Some (ErrNewAndTried (demoKey (addr4 1 2 3 4 100 1)))
          \<and> file = Missing
          \<and> map_option addrIndex a = Some []
          \<and> map_option nNew a = Some 1
          \<and> map_option nTried a = Some 1
          \<and> map_option numAddresses a = Some 2)"
proof -
  have d: "deserializePeers demoE (Snapshot demoSnapBoth) demo0
             = (Some (ErrNewAndTried (demoKey (addr4 1 2 3 4 100 1))),
                demo0\<lparr>key := replicate 32 9,
                  store := (store demo0)(0 :=
                     \<lparr>na = \<lparr>Timestamp = demoLoadTime, Services = 1, IP = [1, 2, 3, 4], Port = 8333\<rparr>,
                      srcAddr = \<lparr>Timestamp = demoLoadTime, Services = 1, IP = [5, 6, 7, 8], Port = 8333\<rparr>,
                      attempts = 0, lastattempt = 0, lastsuccess = 0, tried = True, refs = 1\<rparr>),
                  nalloc := 1,
                  addrIndex := [(demoKey (addr4 1 2 3 4 100 1), 0)],
                  addrNew := (addrNew demo0)(0 := [(demoKey (addr4 1 2 3 4 100 1), 0)]),
                  addrTried := (addrTried demo0)(0 := [0]),
                  nTried := 1, nNew := 1\<rparr>)"
    apply (simp add: deserializePeers_def serialisationVersion_def
          loadNewBuckets_first_only loadTriedBuckets_first_only demoSnapBoth_def
          DeserializeNetAddress_demo1 Let_def time_Unix_def demo0_def)
    apply (simp add: addr4_def demoKey_def)
    done
  show ?thesis
    unfolding loadPeers_def d
    by (simp add: New_demo0 reset_def numAddresses_def demo0_def)
qed

subsection \<open>Promotion into a full tried bucket\<close>

lemma removeFromNew_fields [simp]:
  "key (snd (removeFromNew k p is ob a)) = key a"
  "addrTried (snd (removeFromNew k p is ob a)) = addrTried a"
  "nTried (snd (removeFromNew k p is ob a)) = nTried a"
  "nNew (snd (removeFromNew k p is ob a)) = nNew a"
  "addrIndex (snd (removeFromNew k p is ob a)) = addrIndex a"
  by (induction k p "is" ob a rule: removeFromNew.induct) simp_all

lemma removeFromNew_store_other [simp]:
  "q \<noteq> p \<Longrightarrow> store (snd (removeFromNew k p is ob a)) q = store a q"
  by (induction k p "is" ob a rule: removeFromNew.induct) simp_all

lemma removeFromNew_store_self [simp]:
  "na (store (snd (removeFromNew k p is ob a)) q) = na (store a q)"
  "srcAddr (store (snd (removeFromNew k p is ob a)) q) = srcAddr (store a q)"
  "tried (store (snd (removeFromNew k p is ob a)) q) = tried (store a q)"
  by (induction k p "is" ob a rule: removeFromNew.induct) simp_all

lemma removeFromNew_other_bucket:
  "removeFromNew k p is ob a = (ob', a') \<Longrightarrow> j \<notin> set is \<Longrightarrow> addrNew a' j = addrNew a j"
proof (induction k p "is" ob a arbitrary: ob' a' rule: removeFromNew.induct)
  case (1 addrKey p oldBucket a)
  then show ?case by simp
next
  case (2 addrKey p i rest oldBucket a)
  show ?case
  proof (cases "map_of (addrNew a i) addrKey \<noteq> None")
    case True
    then show ?thesis using "2.IH"(1) [OF True] "2.prems" by simp
  next
    case False
    then show ?thesis using "2.IH"(2) [OF False] "2.prems" by simp
  qed
qed









end
